theory Spec2Isabelle
  imports Complex_Main "HOL-Library.Word" "HOL-Library.Signed_Division"
begin

section \<open>The frame buffer of lib/core/buffer.c\<close>

subsection \<open>What buffer.c takes from other files\<close>

text \<open>
  Modelled from the spec: buffer.h, which defines \<open>MAX_PRODUCERS\<close>, is not among the
  sources; the spec says only that the producer table has a bounded capacity. The number
  stands for the macro; the general theorems hold for any value, since their proofs never
  unfold it.
\<close>

definition MAX_PRODUCERS :: nat where
  "MAX_PRODUCERS = 10"

text \<open>
  Modelled from the spec: buffer.h, which defines \<open>MAX_CONSUMERS\<close>, is not among the
  sources; the spec says only that the consumer table has a bounded capacity. As for
  \<open>MAX_PRODUCERS\<close>, no general theorem depends on the number.
\<close>

definition MAX_CONSUMERS :: nat where
  "MAX_CONSUMERS = 10"

text \<open>
  Modelled from the spec: buffer.h, which defines \<open>MAX_STAGE_NAME_LEN\<close>, is not among the
  sources; the spec says only that a stage name is a bounded string. No general theorem
  depends on the number.
\<close>

definition MAX_STAGE_NAME_LEN :: nat where
  "MAX_STAGE_NAME_LEN = 128"

text \<open>The values of \<open>EAGAIN\<close>, \<open>EINVAL\<close> and \<open>ETIMEDOUT\<close> in errno.h (Linux).\<close>

definition EAGAIN :: int where
  "EAGAIN = 11"

definition EINVAL :: int where
  "EINVAL = 22"

definition ETIMEDOUT :: int where
  "ETIMEDOUT = 110"

text \<open>
  Pointers are addresses, the null pointer is address 0. Frame storage is a region of bytes
  found under its address in \<open>mem\<close>; a metadata container is known by its address.
\<close>

type_synonym ptr = nat

abbreviation NULL :: ptr where
  "NULL \<equiv> 0"

type_synonym byte = "8 word"

text \<open>
  How a call can stop the process or leave defined behaviour: a failed \<open>assert\<close>, an array
  indexed outside its allocation (undefined in C, so nothing is claimed after it), a
  pointer that is not the address of a buffer, and the fatal exits of \<open>CHECK_MEM_F\<close>,
  \<open>FATAL_ERROR_F\<close> and \<open>CHECK_ERROR_F\<close>, the last on a library call that returns an error
  code (errors.h, which defines the three macros, is not among the sources: each logs and
  ends the process). The calls on the mutex and the condition variables of a buffer do not
  fail.
\<close>

datatype error = AssertionFailed | OutOfBounds | InvalidPointer | FatalError

text \<open>The two condition variables of a buffer; a call reports which ones it broadcasts.\<close>

datatype cond = full_cond | empty_cond

text \<open>
  A call that can sleep on a condition variable either returns or leaves its thread
  blocked. The buffer changes only through other calls, so the waiting loop
  \<open>while (guard) pthread_cond_wait(...)\<close> is modelled by its guard: while the guard holds
  the caller is \<open>Blocked\<close> and the buffer is as before; the call goes on from the guard
  again after the next change.
\<close>

datatype 'a wait = Blocked | Returned 'a

text \<open>\<open>struct timespec\<close>, and the order of absolute times.\<close>

record timespec =
  tv_sec :: int
  tv_nsec :: int

definition timespec_le :: "timespec \<Rightarrow> timespec \<Rightarrow> bool" where
  "timespec_le a b \<longleftrightarrow> tv_sec a < tv_sec b \<or> (tv_sec a = tv_sec b \<and> tv_nsec a \<le> tv_nsec b)"

text \<open>
  The host as the thread library sees it: the CPUs \<open>0 .. online_cpus - 1\<close> are online, and
  the process may have \<open>thread_limit\<close> detached zeroing threads alive at a time.
  \<open>pthread_create\<close>, called when \<open>n\<close> of them are alive, fails with \<open>EAGAIN\<close> at the
  limit; \<open>pthread_setaffinity_np\<close> with the set that holds the one CPU \<open>cpu\<close> fails with
  \<open>EINVAL\<close> when that CPU is not online. \<open>pthread_detach\<close> on the thread just created
  does not fail.
\<close>

record host =
  online_cpus :: nat
  thread_limit :: nat

definition pthread_create :: "host \<Rightarrow> nat \<Rightarrow> int" where
  "pthread_create h n = (if n < thread_limit h then 0 else EAGAIN)"

definition pthread_setaffinity_np :: "host \<Rightarrow> nat \<Rightarrow> int" where
  "pthread_setaffinity_np h cpu = (if cpu < online_cpus h then 0 else EINVAL)"

text \<open>
  \<open>strncmp(s1, s2, n) == 0\<close> on strings without an inner NUL: the first \<open>n\<close> characters
  agree. Only the comparison with 0 is used in buffer.c.
\<close>

definition strncmp_eq :: "string \<Rightarrow> string \<Rightarrow> nat \<Rightarrow> bool" where
  "strncmp_eq s1 s2 n \<longleftrightarrow> take n s1 = take n s2"

text \<open>
  \<open>memset(region + off, v, n)\<close>: \<open>None\<close> when the bytes written do not lie inside the
  region.
\<close>

definition memset :: "byte list \<Rightarrow> int \<Rightarrow> byte \<Rightarrow> int \<Rightarrow> byte list option" where
  "memset region off v n =
     (if 0 \<le> off \<and> 0 \<le> n \<and> off + n \<le> int (length region)
      then Some (take (nat off) region @ replicate (nat n) v @ drop (nat (off + n)) region)
      else None)"

subsection \<open>The data model\<close>

text \<open>
  \<open>struct StageInfo\<close>: one row of the producer table or of the consumer table. The struct
  is declared in buffer.h, which is not among the sources; its fields are the ones
  buffer.c reads and writes.
\<close>

record StageInfo =
  in_use :: int
  name :: string
  last_frame_acquired :: int
  last_frame_released :: int

text \<open>
  \<open>struct Buffer\<close> (declared in buffer.h as well) with the fields buffer.c uses, without
  the mutex and the two condition variables: every critical section is one step of the
  model. \<open>is_full\<close>, \<open>frames\<close>, \<open>metadata\<close>, \<open>producers_done\<close> and \<open>consumers_done\<close>
  are the arrays allocated by \<open>create_buffer\<close>, one entry per frame; flags are C \<open>int\<close>s
  that are only ever assigned 0 or 1.
\<close>

record Buffer =
  shutdown_signal :: int
  buffer_name :: string
  buffer_type :: string
  num_frames :: int
  metadata_pool :: ptr
  frame_size :: int
  aligned_frame_size :: int
  is_full :: "int list"
  frames :: "ptr list"
  metadata :: "ptr list"
  producers :: "StageInfo list"
  consumers :: "StageInfo list"
  producers_done :: "int list list"
  consumers_done :: "int list list"
  zero_frames :: int
  last_arrival_time :: real

text \<open>
  What the functions of one buffer act on besides the struct: the reference counts of the
  metadata containers, the containers of each metadata pool, the bytes of the frame
  storage, the detached zeroing threads the call has created for this buffer (each known by
  the frame id in its \<open>zero_frames_thread_args\<close>), the host, and the number of zeroing
  threads that were alive when the call began.
\<close>

record pstate =
  buf :: Buffer
  ref_count :: "ptr \<Rightarrow> int"
  pools :: "ptr \<Rightarrow> ptr list"
  mem :: "ptr \<Rightarrow> byte list"
  zero_threads :: "int list"
  platform :: host
  alive :: nat

text \<open>
  Modelled from the spec: \<open>increment_metadata_ref_count\<close> is defined in metadata.c, which
  is not among the sources. The spec says that \<open>increment\<close> adjusts the count of the
  container under the pool's lock.
\<close>

definition increment_metadata_ref_count :: "ptr \<Rightarrow> (ptr \<Rightarrow> int) \<Rightarrow> (ptr \<Rightarrow> int)" where
  "increment_metadata_ref_count c rc = rc(c := rc c + 1)"

text \<open>
  Modelled from the spec: \<open>decrement_metadata_ref_count\<close> is defined in metadata.c, which
  is not among the sources. The spec says that \<open>decrement\<close> adjusts the count, and that a
  container whose count reaches zero is returned to the free list of its pool: here a
  container is free when its count is 0.
\<close>

definition decrement_metadata_ref_count :: "ptr \<Rightarrow> (ptr \<Rightarrow> int) \<Rightarrow> (ptr \<Rightarrow> int)" where
  "decrement_metadata_ref_count c rc = rc(c := rc c - 1)"

text \<open>
  Modelled from the spec: \<open>request_metadata_object\<close> is defined in metadata.c, which is
  not among the sources. The spec says that \<open>request\<close> draws a container from the pool, sets
  its count to 1 and returns it, and returns null when the pool is exhausted. \<open>objs\<close> are
  the containers of the pool.
\<close>

definition request_metadata_object :: "ptr list \<Rightarrow> (ptr \<Rightarrow> int) \<Rightarrow> ptr \<times> (ptr \<Rightarrow> int)" where
  "request_metadata_object objs rc =
     (case List.find (\<lambda>c. rc c = 0) objs of
        None \<Rightarrow> (NULL, rc)
      | Some c \<Rightarrow> (c, rc(c := 1)))"

text \<open>
  The shape \<open>create_buffer\<close> gives the arrays: \<open>num_frames\<close> entries each, and rows of
  \<open>MAX_PRODUCERS\<close> and \<open>MAX_CONSUMERS\<close> flags. No function of buffer.c changes it.
\<close>

definition allocated :: "Buffer \<Rightarrow> bool" where
  "allocated b \<longleftrightarrow>
     0 < num_frames b \<and>
     length (is_full b) = nat (num_frames b) \<and>
     length (frames b) = nat (num_frames b) \<and>
     length (metadata b) = nat (num_frames b) \<and>
     length (producers b) = MAX_PRODUCERS \<and>
     length (consumers b) = MAX_CONSUMERS \<and>
     length (producers_done b) = nat (num_frames b) \<and>
     list_all (\<lambda>row. length row = MAX_PRODUCERS) (producers_done b) \<and>
     length (consumers_done b) = nat (num_frames b) \<and>
     list_all (\<lambda>row. length row = MAX_CONSUMERS) (consumers_done b)"

subsection \<open>The private helpers\<close>

definition private_get_consumer_id :: "Buffer \<Rightarrow> string \<Rightarrow> int" where
  "private_get_consumer_id b nm =
     (case List.find (\<lambda>i. in_use (consumers b ! i) = 1 \<and>
                          strncmp_eq (name (consumers b ! i)) nm MAX_STAGE_NAME_LEN)
                     [0..<MAX_CONSUMERS] of
        Some i \<Rightarrow> int i
      | None \<Rightarrow> -1)"

definition private_get_producer_id :: "Buffer \<Rightarrow> string \<Rightarrow> int" where
  "private_get_producer_id b nm =
     (case List.find (\<lambda>i. in_use (producers b ! i) = 1 \<and>
                          strncmp_eq (name (producers b ! i)) nm MAX_STAGE_NAME_LEN)
                     [0..<MAX_PRODUCERS] of
        Some i \<Rightarrow> int i
      | None \<Rightarrow> -1)"

definition private_reset_producers :: "Buffer \<Rightarrow> int \<Rightarrow> Buffer" where
  "private_reset_producers b ID =
     b\<lparr>producers_done := (producers_done b)[nat ID := replicate MAX_PRODUCERS 0]\<rparr>"

definition private_reset_consumers :: "Buffer \<Rightarrow> int \<Rightarrow> Buffer" where
  "private_reset_consumers b ID =
     b\<lparr>consumers_done := (consumers_done b)[nat ID := replicate MAX_CONSUMERS 0]\<rparr>"

definition private_mark_consumer_done :: "Buffer \<Rightarrow> string \<Rightarrow> int \<Rightarrow> error + Buffer" where
  "private_mark_consumer_done b nm ID =
     (let consumer_id = private_get_consumer_id b nm in
      if consumer_id = -1 then Inl AssertionFailed
      else if consumers_done b ! nat ID ! nat consumer_id \<noteq> 0 then Inl AssertionFailed
      else Inr (b\<lparr>consumers := (consumers b)[nat consumer_id :=
                       (consumers b ! nat consumer_id)\<lparr>last_frame_released := ID\<rparr>],
                   consumers_done := (consumers_done b)[nat ID :=
                       (consumers_done b ! nat ID)[nat consumer_id := 1]]\<rparr>))"

definition private_mark_producer_done :: "Buffer \<Rightarrow> string \<Rightarrow> int \<Rightarrow> error + Buffer" where
  "private_mark_producer_done b nm ID =
     (let producer_id = private_get_producer_id b nm in
      if producer_id = -1 then Inl AssertionFailed
      else if producers_done b ! nat ID ! nat producer_id \<noteq> 0 then Inl AssertionFailed
      else Inr (b\<lparr>producers := (producers b)[nat producer_id :=
                       (producers b ! nat producer_id)\<lparr>last_frame_released := ID\<rparr>],
                   producers_done := (producers_done b)[nat ID :=
                       (producers_done b ! nat ID)[nat producer_id := 1]]\<rparr>))"

definition private_consumers_done :: "Buffer \<Rightarrow> int \<Rightarrow> int" where
  "private_consumers_done b ID =
     (if list_ex (\<lambda>i. in_use (consumers b ! i) = 1 \<and> consumers_done b ! nat ID ! i = 0)
                 [0..<MAX_CONSUMERS]
      then 0 else 1)"

definition private_producers_done :: "Buffer \<Rightarrow> int \<Rightarrow> int" where
  "private_producers_done b ID =
     (if list_ex (\<lambda>i. in_use (producers b ! i) = 1 \<and> producers_done b ! nat ID ! i = 0)
                 [0..<MAX_PRODUCERS]
      then 0 else 1)"

text \<open>
  \<open>private_mark_frame_empty\<close>: with zero-on-release a detached thread is created for the
  frame and pinned to CPU 5, and the flag stays; the process ends when the thread cannot be
  created or CPU 5 is not online. Otherwise the frame is empty at once. The metadata
  reference is dropped in both cases. The result is the \<open>broadcast\<close> value and the new
  state.
\<close>

definition private_mark_frame_empty :: "pstate \<Rightarrow> int \<Rightarrow> error + (int \<times> pstate)" where
  "private_mark_frame_empty st ident =
     (case (if zero_frames (buf st) = 1
            then if pthread_create (platform st) (alive st + length (zero_threads st)) \<noteq> 0
                 then Inl FatalError
                 else if pthread_setaffinity_np (platform st) 5 \<noteq> 0 then Inl FatalError
                 else Inr (0, st\<lparr>zero_threads := zero_threads st @ [ident]\<rparr>)
            else Inr (1, st\<lparr>buf := private_reset_consumers
                                 ((buf st)\<lparr>is_full := (is_full (buf st))[nat ident := 0]\<rparr>) ident\<rparr>)) of
        Inl e \<Rightarrow> Inl e
      | Inr (broadcast, st1) \<Rightarrow>
          let c = metadata (buf st1) ! nat ident
          in if c \<noteq> NULL
             then Inr (broadcast,
                       st1\<lparr>ref_count := decrement_metadata_ref_count c (ref_count st1),
                           buf := (buf st1)\<lparr>metadata := (metadata (buf st1))[nat ident := NULL]\<rparr>\<rparr>)
             else Inr (broadcast, st1))"

subsection \<open>Release: mark_frame_full and mark_frame_empty\<close>

text \<open>
  \<open>mark_frame_full\<close>; \<open>t\<close> is the value \<open>e_time()\<close> returns. Only \<open>full_cond\<close> is ever
  broadcast: the broadcast of \<open>empty_cond\<close> under \<open>set_empty\<close> is commented out in the
  source.
\<close>

definition mark_frame_full :: "pstate \<Rightarrow> string \<Rightarrow> int \<Rightarrow> real \<Rightarrow> error + (pstate \<times> cond list)" where
  "mark_frame_full st nm ID t =
     (if \<not> ID \<ge> 0 then Inl AssertionFailed
      else if \<not> ID < num_frames (buf st) then Inl AssertionFailed
      else case private_mark_producer_done (buf st) nm ID of
        Inl e \<Rightarrow> Inl e
      | Inr b1 \<Rightarrow>
          if private_producers_done b1 ID = 1 then
            let b2 = private_reset_producers b1 ID;
                b3 = b2\<lparr>is_full := (is_full b2)[nat ID := 1]\<rparr>;
                b4 = b3\<lparr>last_arrival_time := t\<rparr>
            in if private_consumers_done b4 ID = 1 then
                 let b5 = b4\<lparr>is_full := (is_full b4)[nat ID := 0]\<rparr>;
                     c = metadata b5 ! nat ID;
                     st6 = (if c \<noteq> NULL
                            then st\<lparr>buf := b5\<lparr>metadata := (metadata b5)[nat ID := NULL]\<rparr>,
                                    ref_count := decrement_metadata_ref_count c (ref_count st)\<rparr>
                            else st\<lparr>buf := b5\<rparr>)
                 in Inr (st6\<lparr>buf := private_reset_consumers (buf st6) ID\<rparr>, [full_cond])
               else Inr (st\<lparr>buf := b4\<rparr>, [full_cond])
          else Inr (st\<lparr>buf := b1\<rparr>, []))"

definition mark_frame_empty :: "pstate \<Rightarrow> string \<Rightarrow> int \<Rightarrow> error + (pstate \<times> cond list)" where
  "mark_frame_empty st consumer_name ID =
     (if \<not> ID \<ge> 0 then Inl AssertionFailed
      else if \<not> ID < num_frames (buf st) then Inl AssertionFailed
      else case private_mark_consumer_done (buf st) consumer_name ID of
        Inl e \<Rightarrow> Inl e
      | Inr b1 \<Rightarrow>
          (case (if private_consumers_done b1 ID = 1
                 then private_mark_frame_empty (st\<lparr>buf := b1\<rparr>) ID
                 else Inr (0, st\<lparr>buf := b1\<rparr>)) of
             Inl e \<Rightarrow> Inl e
           | Inr (broadcast, st2) \<Rightarrow> Inr (st2, if broadcast = 1 then [empty_cond] else [])))"

subsection \<open>Acquire: the waits\<close>

definition wait_for_empty_frame :: "Buffer \<Rightarrow> string \<Rightarrow> int \<Rightarrow> error + (ptr \<times> Buffer) wait" where
  "wait_for_empty_frame b producer_name ID =
     (if \<not> ID \<ge> 0 then Inl AssertionFailed
      else if \<not> ID < num_frames b then Inl AssertionFailed
      else let producer_id = private_get_producer_id b producer_name in
        if \<not> producer_id \<noteq> -1 then Inl AssertionFailed
        else if (is_full b ! nat ID = 1 \<or> producers_done b ! nat ID ! nat producer_id = 1)
                \<and> shutdown_signal b = 0
        then Inr Blocked
        else if shutdown_signal b = 1 then Inr (Returned (NULL, b))
        else Inr (Returned (frames b ! nat ID,
               b\<lparr>producers := (producers b)[nat producer_id :=
                    (producers b ! nat producer_id)\<lparr>last_frame_acquired := ID\<rparr>]\<rparr>)))"

text \<open>
  \<open>wait_for_full_frame\<close> and \<open>wait_for_full_frame_timeout\<close> do not assert anything about
  \<open>ID\<close>: the first thing done with it is the read \<open>buf->is_full[ID]\<close> in the loop guard,
  which lies outside the array when \<open>ID\<close> is not in \<open>0 .. num_frames - 1\<close>.
\<close>

definition wait_for_full_frame :: "Buffer \<Rightarrow> string \<Rightarrow> int \<Rightarrow> error + (ptr \<times> Buffer) wait" where
  "wait_for_full_frame b nm ID =
     (let consumer_id = private_get_consumer_id b nm in
      if \<not> consumer_id \<noteq> -1 then Inl AssertionFailed
      else if \<not> (0 \<le> ID \<and> nat ID < length (is_full b)) then Inl OutOfBounds
      else if (is_full b ! nat ID = 0 \<or> consumers_done b ! nat ID ! nat consumer_id = 1)
              \<and> shutdown_signal b = 0
      then Inr Blocked
      else if shutdown_signal b = 1 then Inr (Returned (NULL, b))
      else Inr (Returned (frames b ! nat ID,
             b\<lparr>consumers := (consumers b)[nat consumer_id :=
                  (consumers b ! nat consumer_id)\<lparr>last_frame_acquired := ID\<rparr>]\<rparr>)))"

text \<open>
  \<open>pthread_cond_timedwait\<close> with the absolute time \<open>timeout\<close>, called at time \<open>now\<close>: it
  fails with \<open>EINVAL\<close> when \<open>tv_nsec\<close> is not in \<open>0 .. 999999999\<close>, before it looks at
  anything else; it returns \<open>ETIMEDOUT\<close> at once when the time has passed already (POSIX);
  otherwise the caller sleeps (\<open>None\<close>).
\<close>

definition pthread_cond_timedwait :: "timespec \<Rightarrow> timespec \<Rightarrow> int option" where
  "pthread_cond_timedwait now timeout =
     (if \<not> (0 \<le> tv_nsec timeout \<and> tv_nsec timeout < 1000000000) then Some EINVAL
      else if timespec_le timeout now then Some ETIMEDOUT
      else None)"

text \<open>
  \<open>wait_for_full_frame_timeout\<close>. The loop runs while its guard holds and \<open>err = 0\<close>; a
  call of \<open>pthread_cond_timedwait\<close> that returns an error sets \<open>err\<close> to a value other than
  0, so the loop is left after it, whatever the error; only \<open>ETIMEDOUT\<close> is told apart
  afterwards.
\<close>

definition wait_for_full_frame_timeout ::
    "Buffer \<Rightarrow> string \<Rightarrow> int \<Rightarrow> timespec \<Rightarrow> timespec \<Rightarrow> error + (int \<times> Buffer) wait" where
  "wait_for_full_frame_timeout b nm ID now timeout =
     (let consumer_id = private_get_consumer_id b nm in
      if \<not> consumer_id \<noteq> -1 then Inl AssertionFailed
      else if \<not> (0 \<le> ID \<and> nat ID < length (is_full b)) then Inl OutOfBounds
      else
        let err = (if (is_full b ! nat ID = 0 \<or> consumers_done b ! nat ID ! nat consumer_id = 1)
                      \<and> shutdown_signal b = 0
                   then pthread_cond_timedwait now timeout
                   else Some 0)
        in case err of
             None \<Rightarrow> Inr Blocked
           | Some e \<Rightarrow>
               if shutdown_signal b = 1 then Inr (Returned (-1, b))
               else if e = ETIMEDOUT then Inr (Returned (1, b))
               else Inr (Returned (0,
                      b\<lparr>consumers := (consumers b)[nat consumer_id :=
                           (consumers b ! nat consumer_id)\<lparr>last_frame_acquired := ID\<rparr>]\<rparr>)))"

subsection \<open>Registration\<close>

text \<open>
  \<open>strncpy(row.name, name, MAX_STAGE_NAME_LEN)\<close> keeps the first \<open>MAX_STAGE_NAME_LEN\<close>
  characters. Both \<open>assert(0)\<close> of the source stop the call.
\<close>

definition register_consumer :: "Buffer \<Rightarrow> string \<Rightarrow> error + Buffer" where
  "register_consumer b nm =
     (if private_get_consumer_id b nm \<noteq> -1 then Inl AssertionFailed
      else case List.find (\<lambda>i. in_use (consumers b ! i) = 0) [0..<MAX_CONSUMERS] of
        Some i \<Rightarrow> Inr (b\<lparr>consumers := (consumers b)[i :=
                     \<lparr>in_use = 1, name = take MAX_STAGE_NAME_LEN nm,
                      last_frame_acquired = -1, last_frame_released = -1\<rparr>]\<rparr>)
      | None \<Rightarrow> Inl AssertionFailed)"

definition register_producer :: "Buffer \<Rightarrow> string \<Rightarrow> error + Buffer" where
  "register_producer b nm =
     (if private_get_producer_id b nm \<noteq> -1 then Inl AssertionFailed
      else case List.find (\<lambda>i. in_use (producers b ! i) = 0) [0..<MAX_PRODUCERS] of
        Some i \<Rightarrow> Inr (b\<lparr>producers := (producers b)[i :=
                     \<lparr>in_use = 1, name = take MAX_STAGE_NAME_LEN nm,
                      last_frame_acquired = -1, last_frame_released = -1\<rparr>]\<rparr>)
      | None \<Rightarrow> Inl AssertionFailed)"

text \<open>
  The loop of \<open>unregister_consumer\<close> over the frame ids, \<open>broadcast |= ...\<close> included.
\<close>

fun unregister_consumer_loop :: "pstate \<Rightarrow> int \<Rightarrow> int list \<Rightarrow> error + (int \<times> pstate)" where
  "unregister_consumer_loop st broadcast [] = Inr (broadcast, st)"
| "unregister_consumer_loop st broadcast (ident # ids) =
     (if private_consumers_done (buf st) ident = 1
      then (case private_mark_frame_empty st ident of
              Inl e \<Rightarrow> Inl e
            | Inr (r, st') \<Rightarrow> unregister_consumer_loop st' (or broadcast r) ids)
      else unregister_consumer_loop st broadcast ids)"

text \<open>
  \<open>unregister_consumer\<close>. For a name that is not registered the source logs an error and
  goes on to write \<open>buf->consumers[-1]\<close>, outside the table. \<open>snprintf\<close> with the bound
  \<open>MAX_STAGE_NAME_LEN\<close> writes at most \<open>MAX_STAGE_NAME_LEN - 1\<close> characters.
\<close>

definition unregister_consumer :: "pstate \<Rightarrow> string \<Rightarrow> error + (pstate \<times> cond list)" where
  "unregister_consumer st nm =
     (let b = buf st; consumer_id = private_get_consumer_id b nm in
      if consumer_id = -1 then Inl OutOfBounds
      else
        let b1 = b\<lparr>consumers := (consumers b)[nat consumer_id :=
                    (consumers b ! nat consumer_id)
                      \<lparr>in_use := 0, name := take (MAX_STAGE_NAME_LEN - 1) ''unregistered''\<rparr>]\<rparr>
        in case unregister_consumer_loop (st\<lparr>buf := b1\<rparr>) 0 [0 .. num_frames b1 - 1] of
             Inl e \<Rightarrow> Inl e
           | Inr (broadcast, st2) \<Rightarrow> Inr (st2, if broadcast = 1 then [empty_cond] else []))"

subsection \<open>Zero-on-release, shutdown and inspection\<close>

text \<open>The function \<open>zero_frames\<close> of buffer.c, which sets the flag of the same name.\<close>

definition zero_frames_fn :: "Buffer \<Rightarrow> Buffer" where
  "zero_frames_fn b = b\<lparr>zero_frames := 1\<rparr>"

text \<open>
  \<open>private_zero_frames\<close>, the body of a detached zeroing thread, in the two parts in which
  it runs among the other threads. The first part, up to the call of
  \<open>pthread_mutex_lock\<close>, holds no lock: it zeroes the first \<open>frame_size\<close> bytes of the
  storage the frame has at that moment (\<open>div_256\<close> bytes by \<open>nt_memset\<close>, the rest by
  \<open>memset\<close>). Its second assertion lets \<open>ID = num_frames\<close> through, which is outside the
  arrays. The C division truncates.
\<close>

definition private_zero_frames_memset :: "pstate \<Rightarrow> int \<Rightarrow> error + (pstate \<times> cond list)" where
  "private_zero_frames_memset st ID =
     (let b = buf st in
      if \<not> ID \<ge> 0 then Inl AssertionFailed
      else if \<not> ID \<le> num_frames b then Inl AssertionFailed
      else if \<not> nat ID < length (frames b) then Inl OutOfBounds
      else
        let div_256 = 256 * (frame_size b sdiv 256);
            p = frames b ! nat ID
        in case memset (mem st p) 0 0 div_256 of
             None \<Rightarrow> Inl OutOfBounds
           | Some r1 \<Rightarrow>
              (case memset r1 div_256 0 (frame_size b - div_256) of
                 None \<Rightarrow> Inl OutOfBounds
               | Some r2 \<Rightarrow> Inr (st\<lparr>mem := (mem st)(p := r2)\<rparr>, [])))"

text \<open>
  The second part, from \<open>pthread_mutex_lock\<close> on: under the lock it clears the full flag
  and the consumers' done flags of the frame, whatever they are by then, and after it
  broadcasts \<open>empty_cond\<close>. Any call of another thread can come between the two parts.
\<close>

definition private_zero_frames_locked :: "pstate \<Rightarrow> int \<Rightarrow> error + (pstate \<times> cond list)" where
  "private_zero_frames_locked st ID =
     (let b = buf st in
      if \<not> (0 \<le> ID \<and> nat ID < length (is_full b)) then Inl OutOfBounds
      else Inr (st\<lparr>buf := private_reset_consumers (b\<lparr>is_full := (is_full b)[nat ID := 0]\<rparr>) ID\<rparr>,
                [empty_cond]))"

definition send_shutdown_signal :: "Buffer \<Rightarrow> Buffer \<times> cond list" where
  "send_shutdown_signal b = (b\<lparr>shutdown_signal := 1\<rparr>, [empty_cond, full_cond])"

definition is_frame_empty :: "Buffer \<Rightarrow> int \<Rightarrow> error + int" where
  "is_frame_empty b ID =
     (if \<not> ID \<ge> 0 then Inl AssertionFailed
      else if \<not> ID < num_frames b then Inl AssertionFailed
      else Inr (if is_full b ! nat ID = 1 then 0 else 1))"

definition get_num_full_frames :: "Buffer \<Rightarrow> int" where
  "get_num_full_frames b =
     int (length (filter (\<lambda>i. is_full b ! i = 1) [0..<nat (num_frames b)]))"

definition get_num_consumers :: "Buffer \<Rightarrow> int" where
  "get_num_consumers b =
     int (length (filter (\<lambda>i. in_use (consumers b ! i) = 1) [0..<MAX_CONSUMERS]))"

definition get_num_producers :: "Buffer \<Rightarrow> int" where
  "get_num_producers b =
     int (length (filter (\<lambda>i. in_use (producers b ! i) = 1) [0..<MAX_PRODUCERS]))"

subsection \<open>Metadata\<close>

text \<open>
  \<open>pass_metadata\<close> reads the source buffer before it locks the destination and changes
  the destination only. It asserts nothing about the two frame ids; a destination that
  holds another container fails the assertion at the end.
\<close>

definition pass_metadata :: "Buffer \<Rightarrow> int \<Rightarrow> pstate \<Rightarrow> int \<Rightarrow> error + pstate" where
  "pass_metadata from_buf from_ID to_st to_ID =
     (let to_buf = buf to_st in
      if \<not> (0 \<le> from_ID \<and> nat from_ID < length (metadata from_buf)) then Inl OutOfBounds
      else if metadata from_buf ! nat from_ID = NULL then Inr to_st
      else
        let metadata_container = metadata from_buf ! nat from_ID in
        if \<not> (0 \<le> to_ID \<and> nat to_ID < length (metadata to_buf)) then Inl OutOfBounds
        else
          let st1 = (if metadata to_buf ! nat to_ID = NULL
                     then to_st\<lparr>buf := to_buf\<lparr>metadata :=
                                   (metadata to_buf)[nat to_ID := metadata_container]\<rparr>,
                                ref_count := increment_metadata_ref_count metadata_container
                                               (ref_count to_st)\<rparr>
                     else to_st)
          in if \<not> metadata (buf st1) ! nat to_ID = metadata_container then Inl AssertionFailed
             else Inr st1)"

definition allocate_new_metadata_object :: "pstate \<Rightarrow> int \<Rightarrow> error + pstate" where
  "allocate_new_metadata_object st ID =
     (let b = buf st in
      if \<not> ID \<ge> 0 then Inl AssertionFailed
      else if \<not> ID < num_frames b then Inl AssertionFailed
      else if metadata_pool b = NULL then Inl FatalError
      else
        let st1 = (if metadata b ! nat ID = NULL
                   then let (c, rc) = request_metadata_object (pools st (metadata_pool b))
                                        (ref_count st)
                        in st\<lparr>buf := b\<lparr>metadata := (metadata b)[nat ID := c]\<rparr>,
                              ref_count := rc\<rparr>
                   else st)
        in if metadata (buf st1) ! nat ID = NULL then Inl FatalError else Inr st1)"

definition get_metadata_container :: "Buffer \<Rightarrow> int \<Rightarrow> error + ptr" where
  "get_metadata_container b ID =
     (if \<not> ID \<ge> 0 then Inl AssertionFailed
      else if \<not> ID < num_frames b then Inl AssertionFailed
      else Inr (metadata b ! nat ID))"

subsection \<open>Exchanging frame storage\<close>

definition swap_external_frame :: "Buffer \<Rightarrow> int \<Rightarrow> ptr \<Rightarrow> error + (ptr \<times> Buffer)" where
  "swap_external_frame b frame_id external_frame =
     (if \<not> get_num_producers b = 1 then Inl AssertionFailed
      else if \<not> (0 \<le> frame_id \<and> nat frame_id < length (frames b)) then Inl OutOfBounds
      else Inr (frames b ! nat frame_id,
                b\<lparr>frames := (frames b)[nat frame_id := external_frame]\<rparr>))"

text \<open>
  \<open>swap_frames\<close> takes two pointers to buffers and compares them, so it is modelled on
  the store of buffers: \<open>bufs p\<close> is the struct at address \<open>p\<close>. The assertions come in
  the order of the source.
\<close>

definition swap_frames ::
    "(ptr \<Rightarrow> Buffer option) \<Rightarrow> ptr \<Rightarrow> int \<Rightarrow> ptr \<Rightarrow> int \<Rightarrow> error + (ptr \<Rightarrow> Buffer option)" where
  "swap_frames bufs from_buf from_frame_id to_buf to_frame_id =
     (if \<not> from_buf \<noteq> to_buf then Inl AssertionFailed
      else if \<not> from_buf \<noteq> NULL then Inl AssertionFailed
      else if \<not> to_buf \<noteq> NULL then Inl AssertionFailed
      else case (bufs from_buf, bufs to_buf) of
        (Some fb, Some tb) \<Rightarrow>
          if \<not> from_frame_id \<ge> 0 then Inl AssertionFailed
          else if \<not> from_frame_id < num_frames fb then Inl AssertionFailed
          else if \<not> to_frame_id \<ge> 0 then Inl AssertionFailed
          else if \<not> to_frame_id < num_frames tb then Inl AssertionFailed
          else if \<not> aligned_frame_size fb = aligned_frame_size tb then Inl AssertionFailed
          else if \<not> get_num_consumers fb = 1 then Inl AssertionFailed
          else if \<not> get_num_producers tb = 1 then Inl AssertionFailed
          else
            let temp_frame = frames fb ! nat from_frame_id in
            Inr (bufs(from_buf \<mapsto> fb\<lparr>frames := (frames fb)[nat from_frame_id :=
                                         frames tb ! nat to_frame_id]\<rparr>,
                      to_buf \<mapsto> tb\<lparr>frames := (frames tb)[nat to_frame_id := temp_frame]\<rparr>))
      | _ \<Rightarrow> Inl InvalidPointer)"

subsection \<open>Construction\<close>

text \<open>
  \<open>create_buffer\<close>; \<open>allocs\<close> are the pointers the successive calls of \<open>buffer_malloc\<close>
  return, null for one that could not lock its pages (a list that ends early counts as
  such), in which case the result is the null buffer (\<open>None\<close>). An allocation that
  fails inside \<open>buffer_malloc\<close> ends the process there and is not a result of
  \<open>create_buffer\<close>. The \<open>malloc\<close>s of the struct and of
  its arrays are taken to succeed. The source initialises only \<open>in_use\<close> in the rows of
  the two tables; the other fields of a row are read only after registration has set them.
\<close>

definition create_buffer ::
    "int \<Rightarrow> int \<Rightarrow> ptr \<Rightarrow> string \<Rightarrow> string \<Rightarrow> int \<Rightarrow> ptr list \<Rightarrow> error + Buffer option" where
  "create_buffer n len pool nm ty numa_node allocs =
     (if \<not> n > 0 then Inl AssertionFailed
      else if list_ex (\<lambda>p. p = NULL) (take (nat n) allocs) \<or> length allocs < nat n then Inr None
      else Inr (Some
        \<lparr>shutdown_signal = 0, buffer_name = nm, buffer_type = ty, num_frames = n,
         metadata_pool = pool, frame_size = len, aligned_frame_size = len,
         is_full = replicate (nat n) 0,
         frames = take (nat n) allocs,
         metadata = replicate (nat n) NULL,
         producers = replicate MAX_PRODUCERS
            \<lparr>in_use = 0, name = [], last_frame_acquired = 0, last_frame_released = 0\<rparr>,
         consumers = replicate MAX_CONSUMERS
            \<lparr>in_use = 0, name = [], last_frame_acquired = 0, last_frame_released = 0\<rparr>,
         producers_done = replicate (nat n) (replicate MAX_PRODUCERS 0),
         consumers_done = replicate (nat n) (replicate MAX_CONSUMERS 0),
         zero_frames = 0, last_arrival_time = 0\<rparr>))"

text \<open>
  \<open>memcpy(dest, src, n)\<close> on two regions: \<open>None\<close> when either region is shorter than
  \<open>n\<close> bytes.
\<close>

definition memcpy :: "byte list \<Rightarrow> byte list \<Rightarrow> int \<Rightarrow> byte list option" where
  "memcpy dest src n =
     (if 0 \<le> n \<and> n \<le> int (length dest) \<and> n \<le> int (length src)
      then Some (take (nat n) src @ drop (nat n) dest)
      else None)"

text \<open>
  \<open>safe_swap_frame\<close>, on the store of buffers and the frame storage: a swap of the two
  pointers when the source has one consumer, a copy of the payload when it has more.
\<close>

definition safe_swap_frame ::
    "(ptr \<Rightarrow> Buffer option) \<Rightarrow> (ptr \<Rightarrow> byte list) \<Rightarrow> ptr \<Rightarrow> int \<Rightarrow> ptr \<Rightarrow> int
       \<Rightarrow> error + ((ptr \<Rightarrow> Buffer option) \<times> (ptr \<Rightarrow> byte list))" where
  "safe_swap_frame bufs m src_buf src_frame_id dest_buf dest_frame_id =
     (if \<not> src_buf \<noteq> dest_buf then Inl AssertionFailed
      else if \<not> src_buf \<noteq> NULL then Inl AssertionFailed
      else if \<not> dest_buf \<noteq> NULL then Inl AssertionFailed
      else case (bufs src_buf, bufs dest_buf) of
        (Some sb, Some db) \<Rightarrow>
          if \<not> src_frame_id \<ge> 0 then Inl AssertionFailed
          else if \<not> src_frame_id < num_frames sb then Inl AssertionFailed
          else if \<not> dest_frame_id \<ge> 0 then Inl AssertionFailed
          else if \<not> dest_frame_id < num_frames db then Inl AssertionFailed
          else if frame_size sb \<noteq> frame_size db then Inl FatalError
          else if get_num_producers db > 1 then Inl FatalError
          else
            let num_consumers = get_num_consumers sb in
            if num_consumers = 1 then
              let temp_frame = frames sb ! nat src_frame_id in
              Inr (bufs(src_buf \<mapsto> sb\<lparr>frames := (frames sb)[nat src_frame_id :=
                                          frames db ! nat dest_frame_id]\<rparr>,
                        dest_buf \<mapsto> db\<lparr>frames := (frames db)[nat dest_frame_id := temp_frame]\<rparr>),
                   m)
            else if num_consumers > 1 then
              (case memcpy (m (frames db ! nat dest_frame_id)) (m (frames sb ! nat src_frame_id))
                      (frame_size sb) of
                 None \<Rightarrow> Inl OutOfBounds
               | Some r \<Rightarrow> Inr (bufs, m(frames db ! nat dest_frame_id := r)))
            else Inr (bufs, m)
      | _ \<Rightarrow> Inl InvalidPointer)"

section \<open>The process: several buffers and the calls made on them\<close>

text \<open>
  The buffers of a process under their addresses, with what they share: the reference
  counts, the metadata pools, the frame storage, the host, and the detached zeroing threads
  that are alive, each with the buffer and frame id of its arguments: in \<open>threads\<close> those
  that have not begun, in \<open>at_lock\<close> those that have zeroed their frame and have not taken
  the lock yet.
\<close>

record system =
  buffers :: "ptr \<Rightarrow> Buffer option"
  ref_counts :: "ptr \<Rightarrow> int"
  pool_containers :: "ptr \<Rightarrow> ptr list"
  storage :: "ptr \<Rightarrow> byte list"
  threads :: "(ptr \<times> int) list"
  at_lock :: "(ptr \<times> int) list"
  hardware :: host

text \<open>
  A call of the interface, one of the two parts of a detached zeroing thread, or a stage
  writing bytes through a frame pointer it holds. The first argument of an interface call
  is the buffer's address. \<open>Create_buffer\<close> carries the address \<open>malloc\<close> returns for the
  struct and the pointers \<open>buffer_malloc\<close> returns for the frames; \<open>Mark_frame_full\<close>
  carries the value of \<open>e_time()\<close>; \<open>Wait_for_full_frame_timeout\<close> carries the time of
  the call and the absolute time to wait for. A part of a zeroing thread is named by the
  place of the thread in \<open>threads\<close> or in \<open>at_lock\<close>; \<open>Write_frame\<close> carries the
  address of the storage and the bytes. \<open>copy_metadata\<close> is left out: it writes
  only the bytes inside a metadata container, which are not part of the model. The
  functions that only read the buffer are not calls of the process either.
\<close>

datatype call =
    Create_buffer ptr int int ptr string string int "ptr list"
  | Register_producer ptr string
  | Register_consumer ptr string
  | Unregister_consumer ptr string
  | Wait_for_empty_frame ptr string int
  | Wait_for_full_frame ptr string int
  | Wait_for_full_frame_timeout ptr string int timespec timespec
  | Mark_frame_full ptr string int real
  | Mark_frame_empty ptr string int
  | Zero_frames ptr
  | Send_shutdown_signal ptr
  | Allocate_new_metadata_object ptr int
  | Pass_metadata ptr int ptr int
  | Swap_external_frame ptr int ptr
  | Swap_frames ptr int ptr int
  | Safe_swap_frame ptr int ptr int
  | Zeroing_thread_memset nat
  | Zeroing_thread_locked nat
  | Write_frame ptr "byte list"

text \<open>
  A function of one buffer sees the process through \<open>focus\<close> and its effects are written
  back by \<open>commit\<close>; the threads it creates join the pending ones.
\<close>

definition focus :: "system \<Rightarrow> Buffer \<Rightarrow> pstate" where
  "focus s b =
     \<lparr>buf = b, ref_count = ref_counts s, pools = pool_containers s, mem = storage s,
      zero_threads = [], platform = hardware s,
      alive = length (threads s) + length (at_lock s)\<rparr>"

definition commit :: "system \<Rightarrow> ptr \<Rightarrow> pstate \<Rightarrow> system" where
  "commit s p st =
     s\<lparr>buffers := (buffers s)(p \<mapsto> buf st), ref_counts := ref_count st, storage := mem st,
       threads := threads s @ map (Pair p) (zero_threads st)\<rparr>"

definition on_buffer ::
    "system \<Rightarrow> ptr \<Rightarrow> (pstate \<Rightarrow> error + (pstate \<times> cond list)) \<Rightarrow> error + (system \<times> cond list)" where
  "on_buffer s p f =
     (case buffers s p of
        None \<Rightarrow> Inl InvalidPointer
      | Some b \<Rightarrow> (case f (focus s b) of
                     Inl e \<Rightarrow> Inl e
                   | Inr (st, sig) \<Rightarrow> Inr (commit s p st, sig)))"

text \<open>A function that changes the struct only, lifted to \<open>pstate\<close>.\<close>

definition on_struct :: "(Buffer \<Rightarrow> error + Buffer) \<Rightarrow> pstate \<Rightarrow> error + (pstate \<times> cond list)" where
  "on_struct f st = (case f (buf st) of Inl e \<Rightarrow> Inl e | Inr b \<Rightarrow> Inr (st\<lparr>buf := b\<rparr>, []))"

text \<open>A wait: a blocked caller leaves the buffer as it is; the value returned is dropped.\<close>

definition on_wait :: "(Buffer \<Rightarrow> error + ('a \<times> Buffer) wait) \<Rightarrow> pstate \<Rightarrow> error + (pstate \<times> cond list)" where
  "on_wait f st =
     (case f (buf st) of
        Inl e \<Rightarrow> Inl e
      | Inr Blocked \<Rightarrow> Inr (st, [])
      | Inr (Returned (r, b)) \<Rightarrow> Inr (st\<lparr>buf := b\<rparr>, []))"

text \<open>
  One step of the process: the new state and the condition variables broadcast. A new
  buffer gets an address that is not in use, and its frames are zeroed by
  \<open>buffer_malloc\<close>. The first part of a zeroing thread moves it from \<open>threads\<close> to
  \<open>at_lock\<close>, the second part ends it. A stage writes the bytes at the start of a region
  of the frame storage.
\<close>

fun exec :: "call \<Rightarrow> system \<Rightarrow> error + (system \<times> cond list)" where
  "exec (Create_buffer p n len pool nm ty numa_node allocs) s =
     (if p = NULL \<or> buffers s p \<noteq> None then Inl InvalidPointer
      else case create_buffer n len pool nm ty numa_node allocs of
        Inl e \<Rightarrow> Inl e
      | Inr None \<Rightarrow> Inr (s, [])
      | Inr (Some b) \<Rightarrow>
          Inr (s\<lparr>buffers := (buffers s)(p \<mapsto> b),
                 storage := fold (\<lambda>a m. m(a := replicate (nat len) 0)) (frames b) (storage s)\<rparr>,
               []))"
| "exec (Register_producer p nm) s = on_buffer s p (on_struct (\<lambda>b. register_producer b nm))"
| "exec (Register_consumer p nm) s = on_buffer s p (on_struct (\<lambda>b. register_consumer b nm))"
| "exec (Unregister_consumer p nm) s = on_buffer s p (\<lambda>st. unregister_consumer st nm)"
| "exec (Wait_for_empty_frame p nm ID) s =
     on_buffer s p (on_wait (\<lambda>b. wait_for_empty_frame b nm ID))"
| "exec (Wait_for_full_frame p nm ID) s =
     on_buffer s p (on_wait (\<lambda>b. wait_for_full_frame b nm ID))"
| "exec (Wait_for_full_frame_timeout p nm ID now timeout) s =
     on_buffer s p (on_wait (\<lambda>b. wait_for_full_frame_timeout b nm ID now timeout))"
| "exec (Mark_frame_full p nm ID t) s = on_buffer s p (\<lambda>st. mark_frame_full st nm ID t)"
| "exec (Mark_frame_empty p nm ID) s = on_buffer s p (\<lambda>st. mark_frame_empty st nm ID)"
| "exec (Zero_frames p) s = on_buffer s p (on_struct (\<lambda>b. Inr (zero_frames_fn b)))"
| "exec (Send_shutdown_signal p) s =
     on_buffer s p (\<lambda>st. Inr (st\<lparr>buf := fst (send_shutdown_signal (buf st))\<rparr>,
                               snd (send_shutdown_signal (buf st))))"
| "exec (Allocate_new_metadata_object p ID) s =
     on_buffer s p (\<lambda>st. case allocate_new_metadata_object st ID of
                            Inl e \<Rightarrow> Inl e | Inr st' \<Rightarrow> Inr (st', []))"
| "exec (Pass_metadata from_buf from_ID to_buf to_ID) s =
     (case buffers s from_buf of
        None \<Rightarrow> Inl InvalidPointer
      | Some fb \<Rightarrow>
          on_buffer s to_buf (\<lambda>st. case pass_metadata fb from_ID st to_ID of
                                      Inl e \<Rightarrow> Inl e | Inr st' \<Rightarrow> Inr (st', [])))"
| "exec (Swap_external_frame p frame_id external_frame) s =
     on_buffer s p (on_struct (\<lambda>b. case swap_external_frame b frame_id external_frame of
                                      Inl e \<Rightarrow> Inl e | Inr (old, b') \<Rightarrow> Inr b'))"
| "exec (Swap_frames from_buf from_frame_id to_buf to_frame_id) s =
     (case swap_frames (buffers s) from_buf from_frame_id to_buf to_frame_id of
        Inl e \<Rightarrow> Inl e
      | Inr bufs \<Rightarrow> Inr (s\<lparr>buffers := bufs\<rparr>, []))"
| "exec (Safe_swap_frame src_buf src_frame_id dest_buf dest_frame_id) s =
     (case safe_swap_frame (buffers s) (storage s) src_buf src_frame_id dest_buf dest_frame_id of
        Inl e \<Rightarrow> Inl e
      | Inr (bufs, m) \<Rightarrow> Inr (s\<lparr>buffers := bufs, storage := m\<rparr>, []))"
| "exec (Zeroing_thread_memset k) s =
     (if k < length (threads s)
      then on_buffer (s\<lparr>threads := take k (threads s) @ drop (Suc k) (threads s),
                        at_lock := at_lock s @ [threads s ! k]\<rparr>)
             (fst (threads s ! k)) (\<lambda>st. private_zero_frames_memset st (snd (threads s ! k)))
      else Inr (s, []))"
| "exec (Zeroing_thread_locked k) s =
     (if k < length (at_lock s)
      then on_buffer (s\<lparr>at_lock := take k (at_lock s) @ drop (Suc k) (at_lock s)\<rparr>)
             (fst (at_lock s ! k)) (\<lambda>st. private_zero_frames_locked st (snd (at_lock s ! k)))
      else Inr (s, []))"
| "exec (Write_frame a bytes) s =
     (if length bytes \<le> length (storage s a)
      then Inr (s\<lparr>storage := (storage s)(a := bytes @ drop (length bytes) (storage s a))\<rparr>, [])
      else Inl OutOfBounds)"

text \<open>A run of calls stops at the first one that fails.\<close>

fun run :: "call list \<Rightarrow> system \<Rightarrow> error + system" where
  "run [] s = Inr s"
| "run (c # cs) s = (case exec c s of Inl e \<Rightarrow> Inl e | Inr (s', sig) \<Rightarrow> run cs s')"

text \<open>
  A process before any buffer exists, with the metadata pool 1 of two containers, on a
  host of eight CPUs that lets it have four zeroing threads.
\<close>

definition boot :: system where
  "boot = \<lparr>buffers = (\<lambda>_. None), ref_counts = (\<lambda>_. 0),
           pool_containers = (\<lambda>_. [])(1 := [7, 8]), storage = (\<lambda>_. []), threads = [],
           at_lock = [], hardware = \<lparr>online_cpus = 8, thread_limit = 4\<rparr>\<rparr>"

subsection \<open>Buffers for concrete runs\<close>

text \<open>
  A buffer of two frames with the producer \<open>p\<close> and the consumer \<open>c\<close> registered, all
  frames empty, as \<open>create_buffer\<close>, \<open>register_producer\<close> and \<open>register_consumer\<close>
  leave it; and the state around it, in which container 7 of pool 1 is free.
\<close>

definition free_row :: StageInfo where
  "free_row = \<lparr>in_use = 0, name = [], last_frame_acquired = 0, last_frame_released = 0\<rparr>"

definition small_buffer :: Buffer where
  "small_buffer =
     \<lparr>shutdown_signal = 0, buffer_name = ''ring'', buffer_type = ''standard'', num_frames = 2,
      metadata_pool = 1, frame_size = 4, aligned_frame_size = 4,
      is_full = [0, 0], frames = [100, 200], metadata = [NULL, NULL],
      producers = (replicate MAX_PRODUCERS free_row)[0 :=
         \<lparr>in_use = 1, name = ''p'', last_frame_acquired = -1, last_frame_released = -1\<rparr>],
      consumers = (replicate MAX_CONSUMERS free_row)[0 :=
         \<lparr>in_use = 1, name = ''c'', last_frame_acquired = -1, last_frame_released = -1\<rparr>],
      producers_done = replicate 2 (replicate MAX_PRODUCERS 0),
      consumers_done = replicate 2 (replicate MAX_CONSUMERS 0),
      zero_frames = 0, last_arrival_time = 0\<rparr>"

definition small_state :: pstate where
  "small_state =
     \<lparr>buf = small_buffer, ref_count = (\<lambda>_. 0), pools = (\<lambda>_. [])(1 := [7]),
      mem = (\<lambda>_. [])(100 := [1, 2, 3, 4], 200 := [5, 6, 7, 8]), zero_threads = [],
      platform = \<lparr>online_cpus = 8, thread_limit = 4\<rparr>, alive = 0\<rparr>"

text \<open>The same without any consumer, and with container 7 bound to frame 0.\<close>

definition sinkless_state :: pstate where
  "sinkless_state =
     small_state\<lparr>buf := small_buffer\<lparr>consumers := replicate MAX_CONSUMERS free_row,
                                     metadata := [7, NULL]\<rparr>,
                 ref_count := (\<lambda>_. 0)(7 := 1)\<rparr>"

text \<open>Two buffers at the addresses 1 and 2, each with one producer and one consumer.\<close>

definition two_buffers :: "ptr \<Rightarrow> Buffer option" where
  "two_buffers = (\<lambda>_. None)(1 := Some small_buffer,
                              2 := Some (small_buffer\<lparr>frames := [300, 400]\<rparr>))"

text \<open>The acquire and release calls of the handshake.\<close>

fun acquire_or_release :: "call \<Rightarrow> bool" where
  "acquire_or_release (Wait_for_empty_frame p nm ID) = True"
| "acquire_or_release (Wait_for_full_frame p nm ID) = True"
| "acquire_or_release (Wait_for_full_frame_timeout p nm ID now timeout) = True"
| "acquire_or_release (Mark_frame_full p nm ID t) = True"
| "acquire_or_release (Mark_frame_empty p nm ID) = True"
| "acquire_or_release _ = False"

text \<open>The storage pointers of the buffer at an address, if there is one.\<close>

definition frames_at :: "system \<Rightarrow> ptr \<Rightarrow> ptr list option" where
  "frames_at s p = map_option frames (buffers s p)"

text \<open>
  Calls that build the buffer \<open>small_buffer\<close> at address 1, and two fill and drain
  cycles on it.
\<close>

definition setup_calls :: "call list" where
  "setup_calls =
     [Create_buffer 1 2 4 1 ''ring'' ''standard'' 0 [100, 200],
      Register_producer 1 ''p'', Register_consumer 1 ''c'']"

definition cycle_calls :: "call list" where
  "cycle_calls =
     [Wait_for_empty_frame 1 ''p'' 0, Mark_frame_full 1 ''p'' 0 5,
      Wait_for_full_frame 1 ''c'' 0, Mark_frame_empty 1 ''c'' 0,
      Wait_for_empty_frame 1 ''p'' 1, Mark_frame_full 1 ''p'' 1 6,
      Wait_for_full_frame 1 ''c'' 1, Mark_frame_empty 1 ''c'' 1,
      Wait_for_empty_frame 1 ''p'' 0, Mark_frame_full 1 ''p'' 0 7,
      Wait_for_full_frame_timeout 1 ''c'' 0 \<lparr>tv_sec = 8, tv_nsec = 0\<rparr> \<lparr>tv_sec = 9, tv_nsec = 0\<rparr>,
      Mark_frame_empty 1 ''c'' 0]"



text \<open>
  The buffer at an address, and the process, after a run of calls from \<open>boot\<close>; what is
  read off them in the concrete runs below: of frame \<open>s\<close> and row \<open>i\<close> of a table, the
  full flag, the row's \<open>in_use\<close> and its done flag for the frame (for consumers with
  \<open>zero_frames\<close> in front and \<open>private_consumers_done\<close> at the end); the full flag and
  the metadata reference of a frame; the count of a container; the broadcasts of one more
  call. The three runs: the producer fills frame 0; the same with zero-on-release, the
  consumer then releasing the frame; the producer acquires frame 0 and binds a metadata
  container to it.
\<close>

text \<open>What a wait does for its caller, without the buffer it leaves.\<close>

definition outcome :: "error + ('a \<times> Buffer) wait \<Rightarrow> error + 'a wait" where
  "outcome r =
     (case r of
        Inl e \<Rightarrow> Inl e
      | Inr Blocked \<Rightarrow> Inr Blocked
      | Inr (Returned (v, b)) \<Rightarrow> Inr (Returned v))"


definition consumer_flags :: "nat \<Rightarrow> nat \<Rightarrow> Buffer \<Rightarrow> int \<times> int \<times> int \<times> int \<times> int" where
  "consumer_flags s i b =
     (zero_frames b, is_full b ! s, in_use (consumers b ! i), consumers_done b ! s ! i,
      private_consumers_done b (int s))"

definition frame_metadata :: "nat \<Rightarrow> Buffer \<Rightarrow> int \<times> ptr" where
  "frame_metadata s b = (is_full b ! s, metadata b ! s)"

definition count_after :: "call list \<Rightarrow> ptr \<Rightarrow> int option" where
  "count_after calls c = (case run calls boot of Inr s \<Rightarrow> Some (ref_counts s c) | Inl e \<Rightarrow> None)"

definition broadcasts_after :: "call list \<Rightarrow> call \<Rightarrow> cond list option" where
  "broadcasts_after calls c =
     (case run calls boot of
        Inr s \<Rightarrow> (case exec c s of Inr (s', sig) \<Rightarrow> Some sig | Inl e \<Rightarrow> None)
      | Inl e \<Rightarrow> None)"

definition buffer_after :: "call list \<Rightarrow> ptr \<Rightarrow> Buffer option" where
  "buffer_after calls p = (case run calls boot of Inr s \<Rightarrow> buffers s p | Inl e \<Rightarrow> None)"



definition filling_calls :: "call list" where
  "filling_calls =
     setup_calls @ [Wait_for_empty_frame 1 ''p'' 0, Allocate_new_metadata_object 1 0]"

text \<open>
  A run under zero-on-release with the consumers \<open>c\<close> and \<open>d\<close>. The producer fills frame
  0 with the bytes 1, 2, 3, 4 and both consumers release it, \<open>d\<close> last, which creates a
  zeroing thread for the frame. Then \<open>c\<close> unregisters: the frame is still full and every
  remaining consumer is done with it, so \<open>unregister_consumer\<close> creates a second thread for
  the same frame. The first thread zeroes the frame and empties it; the second zeroes it
  again and is held up before it takes the lock. The producer acquires the frame, fills it
  with the bytes 9, 9, 9, 9 and marks it full, and \<open>d\<close>, now the only registered consumer,
  acquires and releases it, which creates a third thread.

  \<open>zeroing_view\<close> is what is read off the process after a run: the full flag of frame 0
  of the buffer at address 1, the zeroing threads that have not begun, those that have
  zeroed and wait for the lock, the bytes of the frame's storage, and what
  \<open>wait_for_empty_frame\<close> on the frame does for the producer.
\<close>

definition stale_thread_calls :: "call list" where
  "stale_thread_calls =
     [Create_buffer 1 2 4 1 ''ring'' ''standard'' 0 [100, 200],
      Register_producer 1 ''p'', Register_consumer 1 ''c'', Register_consumer 1 ''d'',
      Zero_frames 1,
      Wait_for_empty_frame 1 ''p'' 0, Write_frame 100 [1, 2, 3, 4], Mark_frame_full 1 ''p'' 0 5,
      Wait_for_full_frame 1 ''c'' 0, Wait_for_full_frame 1 ''d'' 0,
      Mark_frame_empty 1 ''c'' 0, Mark_frame_empty 1 ''d'' 0,
      Unregister_consumer 1 ''c'',
      Zeroing_thread_memset 0, Zeroing_thread_locked 0,
      Zeroing_thread_memset 0,
      Wait_for_empty_frame 1 ''p'' 0, Write_frame 100 [9, 9, 9, 9], Mark_frame_full 1 ''p'' 0 6,
      Wait_for_full_frame 1 ''d'' 0, Mark_frame_empty 1 ''d'' 0]"

definition zeroing_view ::
    "call list \<Rightarrow> (int \<times> (ptr \<times> int) list \<times> (ptr \<times> int) list \<times> byte list \<times> (error + ptr wait)) option" where
  "zeroing_view calls =
     (case run calls boot of
        Inl e \<Rightarrow> None
      | Inr s \<Rightarrow>
          (case buffers s 1 of
             None \<Rightarrow> None
           | Some b \<Rightarrow> Some (is_full b ! 0, threads s, at_lock s, storage s (frames b ! 0),
                             outcome (wait_for_empty_frame b ''p'' 0))))"

section \<open>Properties\<close>

subsection \<open>Facts about the private helpers\<close>

lemma private_get_producer_id_cases:
  "private_get_producer_id b nm = -1 \<or>
   (\<exists>i<MAX_PRODUCERS. private_get_producer_id b nm = int i \<and> in_use (producers b ! i) = 1)"
  by (auto simp: private_get_producer_id_def find_Some_iff split: option.splits)

lemma private_get_consumer_id_cases:
  "private_get_consumer_id b nm = -1 \<or>
   (\<exists>i<MAX_CONSUMERS. private_get_consumer_id b nm = int i \<and> in_use (consumers b ! i) = 1)"
  by (auto simp: private_get_consumer_id_def find_Some_iff split: option.splits)

lemma private_get_producer_id_row:
  "private_get_producer_id b nm = int i \<Longrightarrow> i < MAX_PRODUCERS \<and> in_use (producers b ! i) = 1"
  using private_get_producer_id_cases [of b nm] by auto

lemma private_get_consumer_id_row:
  "private_get_consumer_id b nm = int i \<Longrightarrow> i < MAX_CONSUMERS \<and> in_use (consumers b ! i) = 1"
  using private_get_consumer_id_cases [of b nm] by auto

lemma private_producers_done_iff:
  "private_producers_done b ID = 1 \<longleftrightarrow>
   (\<forall>i<MAX_PRODUCERS. in_use (producers b ! i) = 1 \<longrightarrow> producers_done b ! nat ID ! i \<noteq> 0)"
  by (auto simp: private_producers_done_def list_ex_iff)

lemma private_consumers_done_iff:
  "private_consumers_done b ID = 1 \<longleftrightarrow>
   (\<forall>i<MAX_CONSUMERS. in_use (consumers b ! i) = 1 \<longrightarrow> consumers_done b ! nat ID ! i \<noteq> 0)"
  by (auto simp: private_consumers_done_def list_ex_iff)


lemma allocatedD:
  assumes "allocated b" and "0 \<le> ID" and "ID < num_frames b"
  shows "nat ID < length (is_full b)" and "nat ID < length (frames b)"
    and "nat ID < length (metadata b)"
    and "nat ID < length (producers_done b)" and "nat ID < length (consumers_done b)"
    and "length (producers_done b ! nat ID) = MAX_PRODUCERS"
    and "length (consumers_done b ! nat ID) = MAX_CONSUMERS"
    and "length (producers b) = MAX_PRODUCERS" and "length (consumers b) = MAX_CONSUMERS"
  using assms by (auto simp: allocated_def list_all_length)

subsection \<open>Filling a frame that nobody consumes\<close>

text \<open>
  Claim C3. When the last registered producer marks frame \<open>ID\<close> full (every other
  producer in use is done for it already) and no consumer is registered, the call itself
  leaves the frame empty again: the full flag is 0, the metadata reference is released (the
  container's count is decremented and the entry is null), the consumers' done flags are
  cleared and no zeroing thread is created. After it \<open>wait_for_empty_frame\<close> on that frame
  returns for every registered producer instead of blocking.
\<close>

theorem mark_frame_full_without_consumers:
  assumes alloc: "allocated (buf st)"
    and ID: "0 \<le> ID" "ID < num_frames (buf st)"
    and reg: "private_get_producer_id (buf st) nm = int pid"
    and fresh: "producers_done (buf st) ! nat ID ! pid = 0"
    and last: "\<forall>i<MAX_PRODUCERS. i \<noteq> pid \<and> in_use (producers (buf st) ! i) = 1
                 \<longrightarrow> producers_done (buf st) ! nat ID ! i \<noteq> 0"
    and nocons: "\<forall>i<MAX_CONSUMERS. in_use (consumers (buf st) ! i) \<noteq> 1"
  shows "\<exists>st'. mark_frame_full st nm ID t = Inr (st', [full_cond])
           \<and> is_full (buf st') ! nat ID = 0
           \<and> metadata (buf st') ! nat ID = NULL
           \<and> ref_count st' =
               (if metadata (buf st) ! nat ID = NULL then ref_count st
                else decrement_metadata_ref_count (metadata (buf st) ! nat ID) (ref_count st))
           \<and> consumers_done (buf st') ! nat ID = replicate MAX_CONSUMERS 0
           \<and> zero_threads st' = zero_threads st
           \<and> (\<forall>q. private_get_producer_id (buf st') q \<noteq> -1 \<longrightarrow>
                 (\<exists>r. wait_for_empty_frame (buf st') q ID = Inr (Returned r)))"
proof -
  note A = allocatedD [OF alloc ID]
  from reg have pid: "pid < MAX_PRODUCERS" "in_use (producers (buf st) ! pid) = 1"
    using private_get_producer_id_row by blast+
  define b1 where "b1 = (buf st)\<lparr>producers := (producers (buf st))[pid :=
                       (producers (buf st) ! pid)\<lparr>last_frame_released := ID\<rparr>],
                   producers_done := (producers_done (buf st))[nat ID :=
                       (producers_done (buf st) ! nat ID)[pid := 1]]\<rparr>"
  have m1: "private_mark_producer_done (buf st) nm ID = Inr b1"
    using reg fresh by (simp add: private_mark_producer_done_def b1_def)
  have inuse1: "in_use (producers b1 ! i) = in_use (producers (buf st) ! i)" for i
    using A pid by (cases "i = pid") (simp_all add: b1_def)
  have pd1: "private_producers_done b1 ID = 1"
    unfolding private_producers_done_iff
  proof (intro allI impI)
    fix i assume i: "i < MAX_PRODUCERS" and u: "in_use (producers b1 ! i) = 1"
    show "producers_done b1 ! nat ID ! i \<noteq> 0"
    proof (cases "i = pid")
      case True then show ?thesis using A pid by (simp add: b1_def)
    next
      case False
      then show ?thesis using last i u A inuse1 by (simp add: b1_def)
    qed
  qed
  define b4 where "b4 = (private_reset_producers b1 ID)
      \<lparr>is_full := (is_full (private_reset_producers b1 ID))[nat ID := 1], last_arrival_time := t\<rparr>"
  have cd4: "private_consumers_done b4 ID = 1"
    unfolding private_consumers_done_iff using nocons
    by (simp add: b4_def private_reset_producers_def b1_def)
  define st' where "st' = (let b5 = b4\<lparr>is_full := (is_full b4)[nat ID := 0]\<rparr>;
                     c = metadata b5 ! nat ID;
                     st6 = (if c \<noteq> NULL
                            then st\<lparr>buf := b5\<lparr>metadata := (metadata b5)[nat ID := NULL]\<rparr>,
                                    ref_count := decrement_metadata_ref_count c (ref_count st)\<rparr>
                            else st\<lparr>buf := b5\<rparr>)
                 in st6\<lparr>buf := private_reset_consumers (buf st6) ID\<rparr>)"
  have res: "mark_frame_full st nm ID t = Inr (st', [full_cond])"
    using ID m1 pd1 cd4 by (simp add: mark_frame_full_def st'_def Let_def b4_def)
  have full: "is_full (buf st') ! nat ID = 0"
    using A by (simp add: st'_def Let_def b4_def private_reset_consumers_def
        private_reset_producers_def b1_def)
  have meta: "metadata (buf st') ! nat ID = NULL"
    using A by (simp add: st'_def Let_def b4_def private_reset_consumers_def
        private_reset_producers_def b1_def)
  have rc: "ref_count st' =
               (if metadata (buf st) ! nat ID = NULL then ref_count st
                else decrement_metadata_ref_count (metadata (buf st) ! nat ID) (ref_count st))"
    by (simp add: st'_def Let_def b4_def private_reset_consumers_def
        private_reset_producers_def b1_def)
  have cd: "consumers_done (buf st') ! nat ID = replicate MAX_CONSUMERS 0"
    using A by (simp add: st'_def Let_def b4_def private_reset_consumers_def
        private_reset_producers_def b1_def)
  have zt: "zero_threads st' = zero_threads st"
    by (simp add: st'_def Let_def)
  have pdrow: "producers_done (buf st') ! nat ID = replicate MAX_PRODUCERS 0"
    using A by (simp add: st'_def Let_def b4_def private_reset_consumers_def
        private_reset_producers_def b1_def)
  have nf: "num_frames (buf st') = num_frames (buf st)"
    by (simp add: st'_def Let_def b4_def private_reset_consumers_def
        private_reset_producers_def b1_def)
  have wait: "\<exists>r. wait_for_empty_frame (buf st') q ID = Inr (Returned r)"
    if q: "private_get_producer_id (buf st') q \<noteq> -1" for q
  proof -
    from q private_get_producer_id_cases [of "buf st'" q]
    obtain j where j: "j < MAX_PRODUCERS" "private_get_producer_id (buf st') q = int j"
      by auto
    have "producers_done (buf st') ! nat ID ! j = 0"
      using pdrow j by simp
    then show ?thesis
      using ID nf j full by (auto simp: wait_for_empty_frame_def Let_def)
  qed
  show ?thesis
    using res full meta rc cd zt wait by blast
qed

theorem mark_frame_full_without_consumers_witness:
  "\<exists>st'. mark_frame_full sinkless_state ''p'' 0 0 = Inr (st', [full_cond])
           \<and> is_full (buf st') ! nat 0 = 0
           \<and> metadata (buf st') ! nat 0 = NULL
           \<and> ref_count st' =
               (if metadata (buf sinkless_state) ! nat 0 = NULL then ref_count sinkless_state
                else decrement_metadata_ref_count (metadata (buf sinkless_state) ! nat 0)
                       (ref_count sinkless_state))
           \<and> consumers_done (buf st') ! nat 0 = replicate MAX_CONSUMERS 0
           \<and> zero_threads st' = zero_threads sinkless_state
           \<and> (\<forall>q. private_get_producer_id (buf st') q \<noteq> -1 \<longrightarrow>
                 (\<exists>r. wait_for_empty_frame (buf st') q 0 = Inr (Returned r)))"
proof -
  have h1: "allocated (buf sinkless_state)" by code_simp
  have h2: "(0::int) \<le> 0" by simp
  have h3: "0 < num_frames (buf sinkless_state)" by code_simp
  have h4: "private_get_producer_id (buf sinkless_state) ''p'' = int 0" by code_simp
  have h5: "producers_done (buf sinkless_state) ! nat 0 ! 0 = 0" by code_simp
  have h6: "\<forall>i<MAX_PRODUCERS. i \<noteq> 0 \<and> in_use (producers (buf sinkless_state) ! i) = 1
                 \<longrightarrow> producers_done (buf sinkless_state) ! nat 0 ! i \<noteq> 0" by code_simp
  have h7: "\<forall>i<MAX_CONSUMERS. in_use (consumers (buf sinkless_state) ! i) \<noteq> 1" by code_simp
  show ?thesis
    by (rule mark_frame_full_without_consumers [OF h1 h2 h3 h4 h5 h6 h7])
qed

subsection \<open>Acquiring an empty frame\<close>

text \<open>
  Claim C5. For a buffer of the allocated shape, a registered producer and a frame id in
  range, with the flags holding 0 or 1: \<open>wait_for_empty_frame\<close> returns null when the shutdown flag is set; otherwise it
  returns the frame's storage pointer, and records the frame as the producer's
  \<open>last_frame_acquired\<close>, exactly when the frame is not full and the producer's done flag
  for it is clear; otherwise it blocks.
\<close>

theorem wait_for_empty_frame_outcome:
  assumes "allocated b" and "0 \<le> ID" and "ID < num_frames b"
    and "private_get_producer_id b p = int pid"
    and "shutdown_signal b \<in> {0, 1}"
    and "is_full b ! nat ID \<in> {0, 1}"
    and "producers_done b ! nat ID ! pid \<in> {0, 1}"
  shows "wait_for_empty_frame b p ID =
           (if shutdown_signal b = 1 then Inr (Returned (NULL, b))
            else if is_full b ! nat ID = 0 \<and> producers_done b ! nat ID ! pid = 0
            then Inr (Returned (frames b ! nat ID,
                   b\<lparr>producers := (producers b)[pid :=
                        (producers b ! pid)\<lparr>last_frame_acquired := ID\<rparr>]\<rparr>))
            else Inr Blocked)"
  using assms by (auto simp: wait_for_empty_frame_def)

theorem wait_for_empty_frame_outcome_witness:
  "wait_for_empty_frame small_buffer ''p'' 1 =
     (if shutdown_signal small_buffer = 1 then Inr (Returned (NULL, small_buffer))
      else if is_full small_buffer ! nat 1 = 0 \<and> producers_done small_buffer ! nat 1 ! 0 = 0
      then Inr (Returned (frames small_buffer ! nat 1,
             small_buffer\<lparr>producers := (producers small_buffer)[0 :=
                  (producers small_buffer ! 0)\<lparr>last_frame_acquired := 1\<rparr>]\<rparr>))
      else Inr Blocked)"
proof -
  have h0: "allocated small_buffer" by code_simp
  have h1: "(0::int) \<le> 1" by simp
  have h2: "1 < num_frames small_buffer" by code_simp
  have h3: "private_get_producer_id small_buffer ''p'' = int 0" by code_simp
  have h4: "shutdown_signal small_buffer \<in> {0, 1}" by code_simp
  have h5: "is_full small_buffer ! nat 1 \<in> {0, 1}" by code_simp
  have h6: "producers_done small_buffer ! nat 1 ! 0 \<in> {0, 1}" by code_simp
  show ?thesis
    by (rule wait_for_empty_frame_outcome [OF h0 h1 h2 h3 h4 h5 h6])
qed

subsection \<open>The timed wait\<close>

text \<open>
  Every way \<open>wait_for_full_frame_timeout\<close> can end for a registered consumer and a frame
  id inside the array of full flags. While the loop guard holds, the error
  \<open>pthread_cond_timedwait\<close> returns ends the loop, and every error other than
  \<open>ETIMEDOUT\<close> is taken for success.
\<close>

lemma wait_for_full_frame_timeout_cases:
  assumes "private_get_consumer_id b nm = int cid"
    and "0 \<le> ID" and "nat ID < length (is_full b)"
  shows "wait_for_full_frame_timeout b nm ID now timeout =
     (if (is_full b ! nat ID = 0 \<or> consumers_done b ! nat ID ! cid = 1) \<and> shutdown_signal b = 0
      then if \<not> (0 \<le> tv_nsec timeout \<and> tv_nsec timeout < 1000000000)
           then Inr (Returned (0, b\<lparr>consumers := (consumers b)[cid :=
                                    (consumers b ! cid)\<lparr>last_frame_acquired := ID\<rparr>]\<rparr>))
           else if timespec_le timeout now then Inr (Returned (1, b))
           else Inr Blocked
      else if shutdown_signal b = 1 then Inr (Returned (-1, b))
      else Inr (Returned (0, b\<lparr>consumers := (consumers b)[cid :=
                               (consumers b ! cid)\<lparr>last_frame_acquired := ID\<rparr>]\<rparr>)))"
  using assms
  by (simp add: wait_for_full_frame_timeout_def pthread_cond_timedwait_def Let_def
      EINVAL_def ETIMEDOUT_def)

text \<open>
  Claim C6, amended. For a buffer of the allocated shape, a registered consumer and a frame
  id in range, \<open>wait_for_full_frame_timeout\<close> never fails, and when it returns its value
  is one of 0 (ok), 1 (timeout) and -1 (shutdown); with the shutdown flag set it returns
  -1. Let the absolute time \<open>timeout\<close> be a well-formed \<open>timespec\<close>, with \<open>tv_nsec\<close> in
  \<open>0 .. 999999999\<close>, and the buffer not shut down. Called on a frame that is not full at
  a time \<open>now\<close> at which \<open>timeout\<close> has passed, it returns 1 at once instead of blocking.
  More precisely: on a frame that is not full, or that this consumer is done with, it
  returns 1 when the time has passed and blocks when it has not; on a full frame that the
  consumer is not done with it returns 0 and records the frame as acquired. Without the
  condition on \<open>tv_nsec\<close> the claim fails: see the counterexample.
\<close>

theorem wait_for_full_frame_timeout_outcomes:
  assumes "allocated b" and "private_get_consumer_id b nm = int cid"
    and "0 \<le> ID" and "ID < num_frames b"
  shows "(\<exists>r. wait_for_full_frame_timeout b nm ID now timeout = Inr r)
       \<and> (\<forall>c b'. wait_for_full_frame_timeout b nm ID now timeout = Inr (Returned (c, b'))
             \<longrightarrow> c = 0 \<or> c = 1 \<or> c = -1)
       \<and> (shutdown_signal b = 1
             \<longrightarrow> wait_for_full_frame_timeout b nm ID now timeout = Inr (Returned (-1, b)))
       \<and> (is_full b ! nat ID = 0 \<and> shutdown_signal b = 0 \<and> timespec_le timeout now
            \<and> 0 \<le> tv_nsec timeout \<and> tv_nsec timeout < 1000000000
             \<longrightarrow> wait_for_full_frame_timeout b nm ID now timeout = Inr (Returned (1, b)))
       \<and> (shutdown_signal b = 0 \<and> 0 \<le> tv_nsec timeout \<and> tv_nsec timeout < 1000000000
             \<longrightarrow> wait_for_full_frame_timeout b nm ID now timeout =
                   (if is_full b ! nat ID = 0 \<or> consumers_done b ! nat ID ! cid = 1
                    then if timespec_le timeout now then Inr (Returned (1, b)) else Inr Blocked
                    else Inr (Returned (0, b\<lparr>consumers := (consumers b)[cid :=
                                (consumers b ! cid)\<lparr>last_frame_acquired := ID\<rparr>]\<rparr>))))"
proof -
  have len: "nat ID < length (is_full b)"
    using assms by (simp add: allocated_def)
  note C = wait_for_full_frame_timeout_cases [OF assms(2,3) len, of now timeout]
  have 1: "\<exists>r. wait_for_full_frame_timeout b nm ID now timeout = Inr r"
    unfolding C by simp
  have 2: "c = 0 \<or> c = 1 \<or> c = -1"
    if "wait_for_full_frame_timeout b nm ID now timeout = Inr (Returned (c, b'))" for c b'
    using that unfolding C by (auto split: if_splits)
  have 3: "wait_for_full_frame_timeout b nm ID now timeout = Inr (Returned (-1, b))"
    if "shutdown_signal b = 1"
    using that unfolding C by simp
  have 4: "wait_for_full_frame_timeout b nm ID now timeout = Inr (Returned (1, b))"
    if "is_full b ! nat ID = 0 \<and> shutdown_signal b = 0 \<and> timespec_le timeout now
            \<and> 0 \<le> tv_nsec timeout \<and> tv_nsec timeout < 1000000000"
    using that unfolding C by simp
  have 5: "wait_for_full_frame_timeout b nm ID now timeout =
                   (if is_full b ! nat ID = 0 \<or> consumers_done b ! nat ID ! cid = 1
                    then if timespec_le timeout now then Inr (Returned (1, b)) else Inr Blocked
                    else Inr (Returned (0, b\<lparr>consumers := (consumers b)[cid :=
                                (consumers b ! cid)\<lparr>last_frame_acquired := ID\<rparr>]\<rparr>)))"
    if "shutdown_signal b = 0 \<and> 0 \<le> tv_nsec timeout \<and> tv_nsec timeout < 1000000000"
    using that unfolding C by simp
  show ?thesis using 1 2 3 4 5 by blast
qed

text \<open>
  The deadline 4 s and 1000000000 ns has passed at 6 s, and frame 0 of the buffer is not
  full. \<open>pthread_cond_timedwait\<close> fails with \<open>EINVAL\<close>, for \<open>tv_nsec\<close> is out of range; the
  call returns 0, not 1, and has recorded frame 0 as the frame consumer \<open>c\<close> acquired.
\<close>

theorem wait_for_full_frame_timeout_outcomes_counterexample:
  "is_full small_buffer ! nat 0 = 0 \<and> shutdown_signal small_buffer = 0
   \<and> timespec_le \<lparr>tv_sec = 4, tv_nsec = 1000000000\<rparr> \<lparr>tv_sec = 6, tv_nsec = 0\<rparr>
   \<and> wait_for_full_frame_timeout small_buffer ''c'' 0
        \<lparr>tv_sec = 6, tv_nsec = 0\<rparr> \<lparr>tv_sec = 4, tv_nsec = 1000000000\<rparr>
       = Inr (Returned (0, small_buffer\<lparr>consumers := (consumers small_buffer)[0 :=
                 (consumers small_buffer ! 0)\<lparr>last_frame_acquired := 0\<rparr>]\<rparr>))"
proof -
  have h1: "private_get_consumer_id small_buffer ''c'' = int 0" by code_simp
  have h2: "nat 0 < length (is_full small_buffer)" by code_simp
  have h3: "is_full small_buffer ! nat 0 = 0" by code_simp
  have h4: "shutdown_signal small_buffer = 0" by code_simp
  have h5: "timespec_le \<lparr>tv_sec = 4, tv_nsec = 1000000000\<rparr> \<lparr>tv_sec = 6, tv_nsec = 0\<rparr>"
    by code_simp
  show ?thesis
    using wait_for_full_frame_timeout_cases [OF h1 _ h2,
        of "\<lparr>tv_sec = 6, tv_nsec = 0\<rparr>" "\<lparr>tv_sec = 4, tv_nsec = 1000000000\<rparr>"] h3 h4 h5
    by simp
qed

theorem wait_for_full_frame_timeout_outcomes_witness:
  "wait_for_full_frame_timeout small_buffer ''c'' 0
      \<lparr>tv_sec = 5, tv_nsec = 0\<rparr> \<lparr>tv_sec = 4, tv_nsec = 999999999\<rparr>
        = Inr (Returned (1, small_buffer))
   \<and> wait_for_full_frame_timeout small_buffer ''c'' 0
      \<lparr>tv_sec = 5, tv_nsec = 0\<rparr> \<lparr>tv_sec = 5, tv_nsec = 1\<rparr> = Inr Blocked
   \<and> wait_for_full_frame_timeout (small_buffer\<lparr>shutdown_signal := 1\<rparr>) ''c'' 0
      \<lparr>tv_sec = 5, tv_nsec = 0\<rparr> \<lparr>tv_sec = 4, tv_nsec = 0\<rparr>
        = Inr (Returned (-1, small_buffer\<lparr>shutdown_signal := 1\<rparr>))"
proof -
  have h0: "allocated small_buffer" by code_simp
  have h1: "private_get_consumer_id small_buffer ''c'' = int 0" by code_simp
  have h2: "(0::int) \<le> 0" by simp
  have h3: "0 < num_frames small_buffer" by code_simp
  have h4: "is_full small_buffer ! nat 0 = 0 \<and> shutdown_signal small_buffer = 0
            \<and> timespec_le \<lparr>tv_sec = 4, tv_nsec = 999999999\<rparr> \<lparr>tv_sec = 5, tv_nsec = 0\<rparr>
            \<and> 0 \<le> tv_nsec \<lparr>tv_sec = 4, tv_nsec = 999999999\<rparr>
            \<and> tv_nsec \<lparr>tv_sec = 4, tv_nsec = 999999999\<rparr> < 1000000000"
    by code_simp
  have h5: "shutdown_signal small_buffer = 0 \<and> 0 \<le> tv_nsec \<lparr>tv_sec = 5, tv_nsec = 1\<rparr>
            \<and> tv_nsec \<lparr>tv_sec = 5, tv_nsec = 1\<rparr> < 1000000000"
    by code_simp
  have h6: "is_full small_buffer ! nat 0 = 0
            \<and> \<not> timespec_le \<lparr>tv_sec = 5, tv_nsec = 1\<rparr> \<lparr>tv_sec = 5, tv_nsec = 0\<rparr>"
    by code_simp
  have k0: "allocated (small_buffer\<lparr>shutdown_signal := 1\<rparr>)" by code_simp
  have k1: "private_get_consumer_id (small_buffer\<lparr>shutdown_signal := 1\<rparr>) ''c'' = int 0"
    by code_simp
  have k3: "0 < num_frames (small_buffer\<lparr>shutdown_signal := 1\<rparr>)" by code_simp
  have k4: "shutdown_signal (small_buffer\<lparr>shutdown_signal := 1\<rparr>) = 1" by simp
  note T = wait_for_full_frame_timeout_outcomes [OF h0 h1 h2 h3]
  have a: "wait_for_full_frame_timeout small_buffer ''c'' 0
      \<lparr>tv_sec = 5, tv_nsec = 0\<rparr> \<lparr>tv_sec = 4, tv_nsec = 999999999\<rparr>
        = Inr (Returned (1, small_buffer))"
    using T [of "\<lparr>tv_sec = 5, tv_nsec = 0\<rparr>" "\<lparr>tv_sec = 4, tv_nsec = 999999999\<rparr>"] h4
    by blast
  have b: "wait_for_full_frame_timeout small_buffer ''c'' 0
      \<lparr>tv_sec = 5, tv_nsec = 0\<rparr> \<lparr>tv_sec = 5, tv_nsec = 1\<rparr> = Inr Blocked"
    using T [of "\<lparr>tv_sec = 5, tv_nsec = 0\<rparr>" "\<lparr>tv_sec = 5, tv_nsec = 1\<rparr>"] h5 h6
    by simp
  have c: "wait_for_full_frame_timeout (small_buffer\<lparr>shutdown_signal := 1\<rparr>) ''c'' 0
      \<lparr>tv_sec = 5, tv_nsec = 0\<rparr> \<lparr>tv_sec = 4, tv_nsec = 0\<rparr>
        = Inr (Returned (-1, small_buffer\<lparr>shutdown_signal := 1\<rparr>))"
    using wait_for_full_frame_timeout_outcomes [OF k0 k1 h2 k3,
        of "\<lparr>tv_sec = 5, tv_nsec = 0\<rparr>" "\<lparr>tv_sec = 4, tv_nsec = 0\<rparr>"] k4
    by blast
  show ?thesis using a b c by simp
qed

subsection \<open>Passing metadata on\<close>

text \<open>
  Claim C7. When the source frame holds a container \<open>c\<close>: a destination frame without
  metadata is bound to \<open>c\<close> and the count of \<open>c\<close> is incremented (by
  \<open>increment_metadata_ref_count\<close>, once); a destination that holds \<open>c\<close> already is left
  as it is, the counts included; a destination that holds another container fails the
  assertion.
\<close>

theorem pass_metadata_cases:
  assumes "0 \<le> from_ID" and "nat from_ID < length (metadata from_buf)"
    and "0 \<le> to_ID" and "nat to_ID < length (metadata (buf to_st))"
    and "metadata from_buf ! nat from_ID = c" and "c \<noteq> NULL"
  shows "pass_metadata from_buf from_ID to_st to_ID =
           (if metadata (buf to_st) ! nat to_ID = NULL
            then Inr (to_st\<lparr>buf := (buf to_st)\<lparr>metadata := (metadata (buf to_st))[nat to_ID := c]\<rparr>,
                           ref_count := increment_metadata_ref_count c (ref_count to_st)\<rparr>)
            else if metadata (buf to_st) ! nat to_ID = c then Inr to_st
            else Inl AssertionFailed)"
  using assms by (auto simp: pass_metadata_def Let_def)

theorem pass_metadata_cases_witness:
  "pass_metadata (small_buffer\<lparr>metadata := [7, NULL]\<rparr>) 0 small_state 1 =
     (if metadata (buf small_state) ! nat 1 = NULL
      then Inr (small_state\<lparr>buf := (buf small_state)\<lparr>metadata :=
                                  (metadata (buf small_state))[nat 1 := 7]\<rparr>,
                            ref_count := increment_metadata_ref_count 7 (ref_count small_state)\<rparr>)
      else if metadata (buf small_state) ! nat 1 = 7 then Inr small_state
      else Inl AssertionFailed)"
proof -
  have h1: "(0::int) \<le> 0" by simp
  have h2: "nat 0 < length (metadata (small_buffer\<lparr>metadata := [7, NULL]\<rparr>))" by simp
  have h3: "(0::int) \<le> 1" by simp
  have h4: "nat 1 < length (metadata (buf small_state))" by code_simp
  have h5: "metadata (small_buffer\<lparr>metadata := [7, NULL]\<rparr>) ! nat 0 = 7" by simp
  have h6: "(7::nat) \<noteq> NULL" by simp
  show ?thesis
    by (rule pass_metadata_cases [OF h1 h2 h3 h4 h5 h6])
qed

subsection \<open>Swapping frame storage between two buffers\<close>

text \<open>
  Claim C8. For two distinct buffers \<open>A\<close> and \<open>B\<close> and frame ids in range: when the aligned
  frame sizes are equal, \<open>A\<close> has one consumer and \<open>B\<close> one producer, \<open>swap_frames\<close>
  exchanges the two storage pointers and changes nothing else in the store of buffers;
  when moreover \<open>B\<close> has one consumer and \<open>A\<close> one producer, so that the swap back passes
  its assertions, the swap back restores the store; and unequal aligned frame sizes, a
  number of consumers of \<open>A\<close> other than one or a number of producers of \<open>B\<close> other than
  one fail an assertion.
\<close>

theorem swap_frames_exchange:
  assumes "bufs pa = Some A" and "bufs pb = Some B"
    and "pa \<noteq> pb" and "pa \<noteq> NULL" and "pb \<noteq> NULL"
    and "0 \<le> a" and "a < num_frames A" and "0 \<le> b" and "b < num_frames B"
    and "allocated A" and "allocated B"
  shows "(aligned_frame_size A = aligned_frame_size B \<and> get_num_consumers A = 1
            \<and> get_num_producers B = 1 \<longrightarrow>
          swap_frames bufs pa a pb b =
            Inr (bufs(pa \<mapsto> A\<lparr>frames := (frames A)[nat a := frames B ! nat b]\<rparr>,
                      pb \<mapsto> B\<lparr>frames := (frames B)[nat b := frames A ! nat a]\<rparr>)))
       \<and> (aligned_frame_size A = aligned_frame_size B
            \<and> get_num_consumers A = 1 \<and> get_num_producers B = 1
            \<and> get_num_consumers B = 1 \<and> get_num_producers A = 1 \<longrightarrow>
          (\<exists>bufs'. swap_frames bufs pa a pb b = Inr bufs'
                   \<and> swap_frames bufs' pb b pa a = Inr bufs))
       \<and> (aligned_frame_size A \<noteq> aligned_frame_size B \<or> get_num_consumers A \<noteq> 1
            \<or> get_num_producers B \<noteq> 1 \<longrightarrow>
          swap_frames bufs pa a pb b = Inl AssertionFailed)"
proof -
  have la: "nat a < length (frames A)" and lb: "nat b < length (frames B)"
    using assms by (auto simp: allocated_def)
  define bufs' where "bufs' = bufs(pa \<mapsto> A\<lparr>frames := (frames A)[nat a := frames B ! nat b]\<rparr>,
                      pb \<mapsto> B\<lparr>frames := (frames B)[nat b := frames A ! nat a]\<rparr>)"
  have first: "swap_frames bufs pa a pb b = Inr bufs'"
    if "aligned_frame_size A = aligned_frame_size B" "get_num_consumers A = 1"
       "get_num_producers B = 1"
    using assms that by (simp add: swap_frames_def bufs'_def)
  have second: "swap_frames bufs' pb b pa a = Inr bufs"
    if "aligned_frame_size A = aligned_frame_size B" "get_num_consumers B = 1"
       "get_num_producers A = 1"
  proof -
    have "bufs(pa \<mapsto> A, pb \<mapsto> B) = bufs"
      using assms(1,2) by (simp add: fun_upd_idem)
    then show ?thesis
      using assms that la lb
      by (simp add: swap_frames_def bufs'_def get_num_consumers_def get_num_producers_def
          fun_upd_twist)
  qed
  have fail: "swap_frames bufs pa a pb b = Inl AssertionFailed"
    if "aligned_frame_size A \<noteq> aligned_frame_size B \<or> get_num_consumers A \<noteq> 1
            \<or> get_num_producers B \<noteq> 1"
    using assms that by (auto simp: swap_frames_def)
  show ?thesis
    using first second fail unfolding bufs'_def by blast
qed

theorem swap_frames_exchange_witness:
  "swap_frames two_buffers 1 0 2 1 =
     Inr (two_buffers(1 \<mapsto> small_buffer\<lparr>frames := [400, 200]\<rparr>,
                      2 \<mapsto> small_buffer\<lparr>frames := [300, 100]\<rparr>))
   \<and> (\<exists>bufs'. swap_frames two_buffers 1 0 2 1 = Inr bufs'
               \<and> swap_frames bufs' 2 1 1 0 = Inr two_buffers)
   \<and> swap_frames (two_buffers(2 \<mapsto> small_buffer\<lparr>aligned_frame_size := 8\<rparr>)) 1 0 2 1
        = Inl AssertionFailed"
proof -
  let ?A = small_buffer and ?B = "small_buffer\<lparr>frames := [300, 400]\<rparr>"
  let ?C = "small_buffer\<lparr>aligned_frame_size := 8\<rparr>"
  have a: "two_buffers 1 = Some ?A" by code_simp
  have b: "two_buffers 2 = Some ?B" by code_simp
  have n: "(1::nat) \<noteq> 2" "(1::nat) \<noteq> NULL" "(2::nat) \<noteq> NULL" by simp_all
  have r: "(0::int) \<le> 0" "0 < num_frames ?A" "(0::int) \<le> 1" "1 < num_frames ?B"
    by simp code_simp+
  have al: "allocated ?A" "allocated ?B" by code_simp+
  have ok1: "aligned_frame_size ?A = aligned_frame_size ?B \<and> get_num_consumers ?A = 1
            \<and> get_num_producers ?B = 1"
    by code_simp
  have ok2: "aligned_frame_size ?A = aligned_frame_size ?B \<and> get_num_consumers ?A = 1
            \<and> get_num_producers ?B = 1 \<and> get_num_consumers ?B = 1 \<and> get_num_producers ?A = 1"
    by code_simp
  have fr: "?A\<lparr>frames := (frames ?A)[nat 0 := frames ?B ! nat 1]\<rparr> = small_buffer\<lparr>frames := [400, 200]\<rparr>"
      "?B\<lparr>frames := (frames ?B)[nat 1 := frames ?A ! nat 0]\<rparr> = small_buffer\<lparr>frames := [300, 100]\<rparr>"
    by code_simp+
  have a': "(two_buffers(2 \<mapsto> ?C)) 1 = Some ?A" using a by simp
  have c': "(two_buffers(2 \<mapsto> ?C)) 2 = Some ?C" by simp
  have rc: "1 < num_frames ?C" by code_simp
  have alc: "allocated ?C" by code_simp
  have bad: "aligned_frame_size ?A \<noteq> aligned_frame_size ?C \<or> get_num_consumers ?A \<noteq> 1
            \<or> get_num_producers ?C \<noteq> 1" by code_simp
  note good = swap_frames_exchange [OF a b n r al]
  note fail = swap_frames_exchange [OF a' c' n r(1,2,3) rc al(1) alc]
  have 1: "swap_frames two_buffers 1 0 2 1 =
     Inr (two_buffers(1 \<mapsto> small_buffer\<lparr>frames := [400, 200]\<rparr>,
                      2 \<mapsto> small_buffer\<lparr>frames := [300, 100]\<rparr>))"
    using good [THEN conjunct1, rule_format, OF ok1] unfolding fr .
  have 2: "\<exists>bufs'. swap_frames two_buffers 1 0 2 1 = Inr bufs'
               \<and> swap_frames bufs' 2 1 1 0 = Inr two_buffers"
    by (rule good [THEN conjunct2, THEN conjunct1, rule_format, OF ok2])
  have 3: "swap_frames (two_buffers(2 \<mapsto> ?C)) 1 0 2 1 = Inl AssertionFailed"
    by (rule fail [THEN conjunct2, THEN conjunct2, rule_format, OF bad])
  show ?thesis using 1 2 3 by (intro conjI)
qed

subsection \<open>Frame ids out of range\<close>

text \<open>
  Claim C10. For a frame id outside \<open>0 .. num_frames - 1\<close>: \<open>wait_for_empty_frame\<close>,
  \<open>mark_frame_full\<close> and \<open>mark_frame_empty\<close> stop at their assertion on the id, whereas
  \<open>wait_for_full_frame\<close>, called by a registered consumer, asserts nothing about the id
  and goes on to index \<open>is_full\<close> outside the array.
\<close>

theorem out_of_range_frame_id:
  assumes "allocated (buf st)"
    and "\<not> (0 \<le> ID \<and> ID < num_frames (buf st))"
    and "private_get_consumer_id (buf st) c \<noteq> -1"
  shows "wait_for_full_frame (buf st) c ID = Inl OutOfBounds
       \<and> wait_for_empty_frame (buf st) p ID = Inl AssertionFailed
       \<and> mark_frame_full st p ID t = Inl AssertionFailed
       \<and> mark_frame_empty st c ID = Inl AssertionFailed"
proof -
  have "length (is_full (buf st)) = nat (num_frames (buf st))"
    using assms(1) by (simp add: allocated_def)
  then show ?thesis
    using assms(2,3)
    by (auto simp: wait_for_full_frame_def wait_for_empty_frame_def mark_frame_full_def
        mark_frame_empty_def Let_def)
qed

theorem out_of_range_frame_id_witness:
  "wait_for_full_frame (buf small_state) ''c'' 2 = Inl OutOfBounds
   \<and> wait_for_empty_frame (buf small_state) ''p'' 2 = Inl AssertionFailed
   \<and> mark_frame_full small_state ''p'' 2 0 = Inl AssertionFailed
   \<and> mark_frame_empty small_state ''c'' 2 = Inl AssertionFailed"
proof -
  have h1: "allocated (buf small_state)" by code_simp
  have h2: "\<not> (0 \<le> (2::int) \<and> 2 < num_frames (buf small_state))" by code_simp
  have h3: "private_get_consumer_id (buf small_state) ''c'' \<noteq> -1" by code_simp
  show ?thesis
    by (rule out_of_range_frame_id [OF h1 h2 h3])
qed

subsection \<open>Acquire and release keep the frame storage in place\<close>

lemma private_mark_frame_empty_frames:
  "private_mark_frame_empty st ident = Inr (br, st') \<Longrightarrow> frames (buf st') = frames (buf st)"
  by (auto simp: private_mark_frame_empty_def private_reset_consumers_def Let_def
      split: if_splits)

lemma mark_frame_full_frames:
  "mark_frame_full st nm ID t = Inr (st', sig) \<Longrightarrow> frames (buf st') = frames (buf st)"
  by (auto simp: mark_frame_full_def private_mark_producer_done_def private_reset_producers_def
      private_reset_consumers_def Let_def split: if_splits sum.splits)

lemma mark_frame_empty_frames:
  "mark_frame_empty st nm ID = Inr (st', sig) \<Longrightarrow> frames (buf st') = frames (buf st)"
proof -
  assume a: "mark_frame_empty st nm ID = Inr (st', sig)"
  then obtain b1 where b1: "private_mark_consumer_done (buf st) nm ID = Inr b1"
    by (auto simp: mark_frame_empty_def split: if_splits sum.splits)
  have f1: "frames b1 = frames (buf st)"
    using b1 by (auto simp: private_mark_consumer_done_def Let_def split: if_splits)
  have "(\<exists>br. private_mark_frame_empty (st\<lparr>buf := b1\<rparr>) ID = Inr (br, st')) \<or> st' = st\<lparr>buf := b1\<rparr>"
    using a b1 by (auto simp: mark_frame_empty_def split: if_splits sum.splits)
  then show ?thesis
    using f1 private_mark_frame_empty_frames [of "st\<lparr>buf := b1\<rparr>" ID _ st'] by auto
qed

lemma wait_for_empty_frame_frames:
  "wait_for_empty_frame b nm ID = Inr (Returned (r, b')) \<Longrightarrow> frames b' = frames b"
  by (auto simp: wait_for_empty_frame_def Let_def split: if_splits)

lemma wait_for_full_frame_frames:
  "wait_for_full_frame b nm ID = Inr (Returned (r, b')) \<Longrightarrow> frames b' = frames b"
  by (auto simp: wait_for_full_frame_def Let_def split: if_splits)

lemma wait_for_full_frame_timeout_frames:
  "wait_for_full_frame_timeout b nm ID now timeout = Inr (Returned (r, b')) \<Longrightarrow> frames b' = frames b"
  by (auto simp: wait_for_full_frame_timeout_def Let_def split: if_splits option.splits)

lemma on_wait_frames:
  assumes "\<And>b r b'. f b = Inr (Returned (r, b')) \<Longrightarrow> frames b' = frames b"
    and "on_wait f st = Inr (st', sig)"
  shows "frames (buf st') = frames (buf st)"
  using assms by (auto simp: on_wait_def split: sum.splits wait.splits)

lemma on_buffer_frames:
  assumes "\<And>st st' sig. f st = Inr (st', sig) \<Longrightarrow> frames (buf st') = frames (buf st)"
    and "on_buffer s p f = Inr (s', sig)"
  shows "frames_at s' q = frames_at s q"
  using assms
  by (auto simp: on_buffer_def commit_def focus_def frames_at_def split: option.splits sum.splits)

lemma on_buffer_on_wait_frames:
  assumes "\<And>b r b'. f b = Inr (Returned (r, b')) \<Longrightarrow> frames b' = frames b"
    and "on_buffer s p (on_wait f) = Inr (s', sig)"
  shows "frames_at s' q = frames_at s q"
  by (rule on_buffer_frames [OF on_wait_frames [OF assms(1)] assms(2)])

lemma exec_acquire_or_release_frames:
  assumes "acquire_or_release c" and "exec c s = Inr (s', sig)"
  shows "frames_at s' q = frames_at s q"
proof (cases c)
  case (Wait_for_empty_frame p nm ID)
  with assms(2) have "on_buffer s p (on_wait (\<lambda>b. wait_for_empty_frame b nm ID)) = Inr (s', sig)"
    by simp
  then show ?thesis
    by (rule on_buffer_on_wait_frames [rotated]) (rule wait_for_empty_frame_frames)
next
  case (Wait_for_full_frame p nm ID)
  with assms(2) have "on_buffer s p (on_wait (\<lambda>b. wait_for_full_frame b nm ID)) = Inr (s', sig)"
    by simp
  then show ?thesis
    by (rule on_buffer_on_wait_frames [rotated]) (rule wait_for_full_frame_frames)
next
  case (Wait_for_full_frame_timeout p nm ID now timeout)
  with assms(2)
  have "on_buffer s p (on_wait (\<lambda>b. wait_for_full_frame_timeout b nm ID now timeout)) = Inr (s', sig)"
    by simp
  then show ?thesis
    by (rule on_buffer_on_wait_frames [rotated]) (rule wait_for_full_frame_timeout_frames)
next
  case (Mark_frame_full p nm ID t)
  with assms(2) have "on_buffer s p (\<lambda>st. mark_frame_full st nm ID t) = Inr (s', sig)"
    by simp
  then show ?thesis
    by (rule on_buffer_frames [rotated]) (rule mark_frame_full_frames)
next
  case (Mark_frame_empty p nm ID)
  with assms(2) have "on_buffer s p (\<lambda>st. mark_frame_empty st nm ID) = Inr (s', sig)"
    by simp
  then show ?thesis
    by (rule on_buffer_frames [rotated]) (rule mark_frame_empty_frames)
qed (use assms in simp_all)

text \<open>
  Claim C9. No run of acquire and release calls (\<open>wait_for_empty_frame\<close>,
  \<open>wait_for_full_frame\<close>, also with a timeout, \<open>mark_frame_full\<close>, \<open>mark_frame_empty\<close>),
  however long and whichever buffers it addresses, changes the storage pointers of any
  buffer: after the run every frame has the pointer it had before, which is the one it got
  at construction when no swap came in between. This holds for every buffer, so also for
  one with a single producer, a single consumer and zero-on-release disabled.
\<close>

theorem frames_stable_across_cycles:
  assumes "\<forall>c\<in>set calls. acquire_or_release c" and "run calls s = Inr s'"
  shows "frames_at s' p = frames_at s p"
  using assms
proof (induction calls arbitrary: s)
  case Nil
  then show ?case by simp
next
  case (Cons c cs)
  from Cons.prems(2) obtain s1 sig where e: "exec c s = Inr (s1, sig)" and r: "run cs s1 = Inr s'"
    by (auto split: sum.splits)
  have "frames_at s1 p = frames_at s p"
    using exec_acquire_or_release_frames [OF _ e] Cons.prems(1) by simp
  moreover have "frames_at s' p = frames_at s1 p"
    using Cons.IH [OF _ r] Cons.prems(1) by simp
  ultimately show ?case by simp
qed

theorem frames_stable_across_cycles_witness:
  "\<exists>s s'. run setup_calls boot = Inr s \<and> run cycle_calls s = Inr s'
      \<and> frames_at s 1 = Some [100, 200] \<and> frames_at s' 1 = frames_at s 1"
proof -
  have "case run setup_calls boot of
          Inr s \<Rightarrow> (case run cycle_calls s of
                      Inr s' \<Rightarrow> frames_at s 1 = Some [100, 200]
                    | Inl e \<Rightarrow> False)
        | Inl e \<Rightarrow> False"
    by code_simp
  then obtain s s' where s: "run setup_calls boot = Inr s" and s': "run cycle_calls s = Inr s'"
    and f: "frames_at s 1 = Some [100, 200]"
    by (auto split: sum.splits)
  have h: "\<forall>c\<in>set cycle_calls. acquire_or_release c" by code_simp
  show ?thesis
    using s s' f frames_stable_across_cycles [OF h s', of 1] by blast
qed


subsection \<open>The state of the flags after every call\<close>


lemma in_use_update_acquired [simp]:
  "in_use (rows[i := (rows ! i)\<lparr>last_frame_acquired := v\<rparr>] ! j) = in_use (rows ! j)"
  by (cases "i < length rows"; cases "i = j") (simp_all add: list_update_beyond)

lemma in_use_update_released [simp]:
  "in_use (rows[i := (rows ! i)\<lparr>last_frame_released := v\<rparr>] ! j) = in_use (rows ! j)"
  by (cases "i < length rows"; cases "i = j") (simp_all add: list_update_beyond)


















































subsection \<open>Unregistering a consumer while a frame is being filled\<close>

text \<open>
  Claim C2, at an input where the code departs from it. The producer has acquired frame 0
  and bound container 7 to it; the frame is not full. Unregistering the only consumer
  releases the metadata of that frame (the reference is null afterwards and the count of
  the container is 0) and broadcasts \<open>empty_cond\<close>: the loop of \<open>unregister_consumer\<close>
  asks only whether all remaining consumers are done with a frame, which holds of every
  frame once no consumer is left, and never whether the frame is full.
\<close>

theorem unregister_consumer_releases_unfilled_frame:
  "map_option (frame_metadata 0) (buffer_after filling_calls 1) = Some (0, 7)
   \<and> count_after filling_calls 7 = Some 1
   \<and> map_option (frame_metadata 0)
       (buffer_after (filling_calls @ [Unregister_consumer 1 ''c'']) 1) = Some (0, NULL)
   \<and> count_after (filling_calls @ [Unregister_consumer 1 ''c'']) 7 = Some 0
   \<and> broadcasts_after filling_calls (Unregister_consumer 1 ''c'') = Some [empty_cond]"
  by code_simp




subsection \<open>Zero-on-release: a second zeroing thread for a frame\<close>

text \<open>
  Claim C4, at a run where the code departs from it. Zero-on-release is set. Before the
  last call of the run frame 0 is full and \<open>d\<close>, the only registered consumer, is not done
  with it. Its \<open>mark_frame_empty\<close> broadcasts nothing, leaves the frame full and creates
  the zeroing thread for it; the producer is blocked in \<open>wait_for_empty_frame\<close>, and the
  frame holds the bytes 9, 9, 9, 9. Then the thread that \<open>unregister_consumer\<close> created for
  the same frame earlier, and that zeroed it before the producer filled it again, takes the
  lock: it clears the full flag and broadcasts \<open>empty_cond\<close>. The producer's
  \<open>wait_for_empty_frame\<close> returns the frame, whose bytes are still 9, 9, 9, 9, while the
  thread created by the release has not begun.
\<close>

theorem stale_zeroing_thread_empties_unzeroed_frame:
  "map_option (consumer_flags 0 1) (buffer_after (butlast stale_thread_calls) 1)
      = Some (1, 1, 1, 0, 0)
   \<and> map_option get_num_consumers (buffer_after (butlast stale_thread_calls) 1) = Some 1
   \<and> zeroing_view (butlast stale_thread_calls)
      = Some (1, [], [(1, 0)], [9, 9, 9, 9], Inr Blocked)
   \<and> broadcasts_after (butlast stale_thread_calls) (Mark_frame_empty 1 ''d'' 0) = Some []
   \<and> zeroing_view stale_thread_calls
      = Some (1, [(1, 0)], [(1, 0)], [9, 9, 9, 9], Inr Blocked)
   \<and> broadcasts_after stale_thread_calls (Zeroing_thread_locked 0) = Some [empty_cond]
   \<and> zeroing_view (stale_thread_calls @ [Zeroing_thread_locked 0])
      = Some (0, [(1, 0)], [], [9, 9, 9, 9], Inr (Returned 100))"
  by code_simp

end
